theory Spec2Isabelle
  imports Main
begin

section \<open>Go values used by the APT provisioner\<close>

text \<open>
  A Go \<open>error\<close> value. The provisioner inspects an error in two ways only: with
  \<open>os.IsNotExist\<close> and by formatting it (\<open>%v\<close>); both are kept.
  \<open>nil\<close> is the \<open>Inr\<close> side of a result.
\<close>

datatype go_error = ErrNotExist string | ErrOther string

fun os_IsNotExist :: "go_error \<Rightarrow> bool" where
  "os_IsNotExist (ErrNotExist m) = True"
| "os_IsNotExist (ErrOther m) = False"

fun Error_text :: "go_error \<Rightarrow> string" where
  "Error_text (ErrNotExist m) = m"
| "Error_text (ErrOther m) = m"

datatype FileInfo = FileInfo (IsDir: bool)

text \<open>The two readers handed to \<open>comm.Upload\<close>: an opened local file, or a string.\<close>

datatype reader = FileReader string | StringReader string

text \<open>
  Every call the provisioner makes on the progress sink, the local operating system and the
  communicator is recorded, with its arguments, in the order in which it is made.
\<close>

datatype event =
    UiSay string
  | UiError string
  | OsStat string
  | OsOpen string
  | FileStat string
  | FileClose string
  | IoTempDir string string
  | OsRemoveAll string
  | ExecRun "string list"
  | CommUpload string reader "FileInfo option"
  | CommUploadDir string string "string list"
  | CommDownloadDir string string "string list"
  | RunWithUi string

type_synonym outcome = "(go_error + unit) \<times> event list"

text \<open>
  The world outside the provisioner. Each operation answers as a function of the calls
  made so far and of its arguments, so the same path may exist at one moment and be gone at
  a later one.
\<close>

record env =
  os_Stat :: "event list \<Rightarrow> string \<Rightarrow> go_error + FileInfo"
  os_Open :: "event list \<Rightarrow> string \<Rightarrow> go_error + unit"
  file_Stat :: "event list \<Rightarrow> string \<Rightarrow> go_error + FileInfo"
  os_TempDir :: "string"
  ioutil_TempDir :: "event list \<Rightarrow> string \<Rightarrow> string \<Rightarrow> go_error + string"
  cmd_Run :: "event list \<Rightarrow> string list \<Rightarrow> go_error + unit"
  comm_Upload :: "event list \<Rightarrow> string \<Rightarrow> reader \<Rightarrow> FileInfo option \<Rightarrow> go_error + unit"
  comm_UploadDir :: "event list \<Rightarrow> string \<Rightarrow> string \<Rightarrow> string list \<Rightarrow> go_error + unit"
  comm_DownloadDir :: "event list \<Rightarrow> string \<Rightarrow> string \<Rightarrow> string list \<Rightarrow> go_error + unit"
  cmd_RunWithUi :: "event list \<Rightarrow> string \<Rightarrow> go_error + unit"

section \<open>Library functions of Go the provisioner calls\<close>

text \<open>
  \<open>strings.Join\<close>: the empty string for no element, the element itself for one,
  otherwise the first element and then the separator before each further element.
\<close>

fun strings_Join :: "string list \<Rightarrow> string \<Rightarrow> string" where
  "strings_Join [] sep = []"
| "strings_Join [x] sep = x"
| "strings_Join (x # y # ys) sep = x @ sep @ strings_Join (y # ys) sep"

definition IsPathSeparator :: "char \<Rightarrow> bool" where
  "IsPathSeparator c = (c = CHR ''/'')"

text \<open>
  \<open>filepath.Base\<close> on a Unix host (no volume names): \<open>.\<close> for the empty path;
  trailing separators are stripped, then everything up to the last separator; a path of
  separators only gives the separator.
\<close>

definition filepath_Base :: "string \<Rightarrow> string" where
  "filepath_Base path =
     (if path = [] then ''.''
      else
        (let stripped = rev (dropWhile IsPathSeparator (rev path));
             elem = rev (takeWhile (\<lambda>c. \<not> IsPathSeparator c) (rev stripped))
         in if elem = [] then ''/'' else elem))"

section \<open>Configuration\<close>

text \<open>
  \<open>Config\<close>, without the embedded \<open>common.PackerConfig\<close> and the interpolation
  context, which the provisioner never reads.
\<close>

record Config =
  Packages :: "string list"
  Sources :: "string list"
  Keys :: "string list"
  CacheDir :: string

text \<open>
  \<open>Config.Prepare\<close>. \<open>config.Decode\<close> belongs to the plugin SDK; it is a
  parameter that, from the receiver and the raw blocks, gives its error result and the
  receiver as it leaves it.
\<close>

definition Prepare ::
    "(Config \<Rightarrow> 'r list \<Rightarrow> (go_error + unit) \<times> Config) \<Rightarrow> Config \<Rightarrow> 'r list
      \<Rightarrow> (go_error + unit) \<times> Config" where
  "Prepare Decode c raws =
     (case Decode c raws of
        (Inl err, c1) \<Rightarrow> (Inl err, c1)
      | (Inr u, c1) \<Rightarrow>
          (Inr (), if CacheDir c1 = [] then c1\<lparr>CacheDir := ''/var/cache/apt/archives''\<rparr> else c1))"

section \<open>The steps of the provisioner\<close>

definition uploadHostPackageCache :: "env \<Rightarrow> Config \<Rightarrow> event list \<Rightarrow> outcome" where
  "uploadHostPackageCache env cfg l =
     (let l1 = l @ [OsStat (CacheDir cfg)] in
      case os_Stat env l (CacheDir cfg) of
        Inl err \<Rightarrow>
          if os_IsNotExist err
          then (Inr (), l1 @ [UiSay ''Host APT package cache not found, likely not running on a debian based host. Proceeding regardless''])
          else (Inl err, l1)
      | Inr cache \<Rightarrow>
          if IsDir cache
          then
            (let l2 = l1 @ [CommUploadDir ''/var/cache/apt/archives'' (CacheDir cfg) []] in
             case comm_UploadDir env l1 ''/var/cache/apt/archives'' (CacheDir cfg) [] of
               Inl err \<Rightarrow> (Inl err, l2)
             | Inr u \<Rightarrow> (Inr (), l2))
          else (Inr (), l1))"

definition key_missing_message :: "string \<Rightarrow> string" where
  "key_missing_message key =
     ''Package trust key '' @ [CHR 0x27] @ key @ [CHR 0x27]
       @ '' doesn'' @ [CHR 0x27] @ ''t exist, likely not running on a debian based host. Skipping transfer.''"

text \<open>
  The loop of \<open>uploadHostPackageTrust\<close>. \<open>opened\<close> holds the files whose
  \<open>Close\<close> has been deferred, the latest first: they are closed, in that order, when the
  function returns.
\<close>

fun uploadHostPackageTrust_loop :: "env \<Rightarrow> string list \<Rightarrow> string list \<Rightarrow> event list \<Rightarrow> outcome" where
  "uploadHostPackageTrust_loop env [] opened l = (Inr (), l @ map FileClose opened)"
| "uploadHostPackageTrust_loop env (key # keys) opened l =
     (case os_Open env l key of
        Inl err \<Rightarrow>
          if os_IsNotExist err
          then uploadHostPackageTrust_loop env keys opened
                 (l @ [OsOpen key, UiSay (key_missing_message key)])
          else (Inl err, l @ [OsOpen key] @ map FileClose opened)
      | Inr f \<Rightarrow>
          (case file_Stat env (l @ [OsOpen key]) key of
             Inl err \<Rightarrow>
               if os_IsNotExist err
               then uploadHostPackageTrust_loop env keys (key # opened)
                      (l @ [OsOpen key, FileStat key, UiSay (key_missing_message key)])
               else (Inl err, l @ [OsOpen key, FileStat key] @ map FileClose (key # opened))
           | Inr fi \<Rightarrow>
               (case comm_Upload env (l @ [OsOpen key, FileStat key])
                       (''/etc/apt/trusted.gpg.d/'' @ filepath_Base key) (FileReader key) (Some fi) of
                  Inl err \<Rightarrow>
                    (Inl err,
                     l @ [OsOpen key, FileStat key,
                          CommUpload (''/etc/apt/trusted.gpg.d/'' @ filepath_Base key) (FileReader key) (Some fi),
                          UiError (''Failed to upload APT key '' @ key)]
                       @ map FileClose (key # opened))
                | Inr u \<Rightarrow>
                    uploadHostPackageTrust_loop env keys (key # opened)
                      (l @ [OsOpen key, FileStat key,
                            CommUpload (''/etc/apt/trusted.gpg.d/'' @ filepath_Base key) (FileReader key) (Some fi)]))))"

definition uploadHostPackageTrust :: "env \<Rightarrow> Config \<Rightarrow> event list \<Rightarrow> outcome" where
  "uploadHostPackageTrust env cfg l = uploadHostPackageTrust_loop env (Keys cfg) [] l"

definition uploadPackageList :: "env \<Rightarrow> Config \<Rightarrow> event list \<Rightarrow> outcome" where
  "uploadPackageList env cfg l =
     (let r = StringReader (strings_Join (Sources cfg) [CHR 0x0A] @ [CHR 0x0A]) in
      case comm_Upload env l ''/etc/apt/sources.list.d/packer.list'' r None of
        Inl err \<Rightarrow> (Inl err, l @ [CommUpload ''/etc/apt/sources.list.d/packer.list'' r None])
      | Inr u \<Rightarrow> (Inr (), l @ [CommUpload ''/etc/apt/sources.list.d/packer.list'' r None]))"

definition updateRemotePackageIndex :: "env \<Rightarrow> event list \<Rightarrow> outcome" where
  "updateRemotePackageIndex env l =
     (case cmd_RunWithUi env l ''/usr/bin/apt-get update'' of
        Inl err \<Rightarrow> (Inl err, l @ [RunWithUi ''/usr/bin/apt-get update''])
      | Inr u \<Rightarrow> (Inr (), l @ [RunWithUi ''/usr/bin/apt-get update'']))"

definition install_command :: "Config \<Rightarrow> string" where
  "install_command cfg =
     ''DEBIAN_FRONTEND=noninteractive /usr/bin/apt-get install -y --no-install-recommends ''
       @ strings_Join (Packages cfg) '' ''"

definition installRemotePackages :: "env \<Rightarrow> Config \<Rightarrow> event list \<Rightarrow> outcome" where
  "installRemotePackages env cfg l =
     (case cmd_RunWithUi env l (install_command cfg) of
        Inl err \<Rightarrow> (Inl err, l @ [RunWithUi (install_command cfg)])
      | Inr u \<Rightarrow> (Inr (), l @ [RunWithUi (install_command cfg)]))"

definition dns_command :: string where
  "dns_command =
     ''/bin/sh -c '' @ [CHR 0x27] @ ''for i in $(seq 100); do ''
       @ ''resolvectl query deb.debian.org >/dev/null && break; sleep 0.1; done; ''
       @ ''resolvectl query deb.debian.org'' @ [CHR 0x27]"

definition testRemoteDNS :: "env \<Rightarrow> event list \<Rightarrow> outcome" where
  "testRemoteDNS env l =
     (case cmd_RunWithUi env l dns_command of
        Inl err \<Rightarrow> (Inl err, l @ [RunWithUi dns_command])
      | Inr u \<Rightarrow> (Inr (), l @ [RunWithUi dns_command]))"

definition cleanRemotePackages :: "env \<Rightarrow> event list \<Rightarrow> outcome" where
  "cleanRemotePackages env l =
     (case cmd_RunWithUi env l ''/usr/bin/apt-get clean'' of
        Inl err \<Rightarrow> (Inl err, l @ [RunWithUi ''/usr/bin/apt-get clean''])
      | Inr u \<Rightarrow> (Inr (), l @ [RunWithUi ''/usr/bin/apt-get clean'']))"

text \<open>
  The part of \<open>updateCache\<close> that runs once \<open>os.RemoveAll(dir)\<close> has been deferred:
  the download into the temporary directory and the no-clobber move.
\<close>

definition updateCache_deferred :: "env \<Rightarrow> Config \<Rightarrow> string \<Rightarrow> event list \<Rightarrow> outcome" where
  "updateCache_deferred env cfg dir l =
     (let l1 = l @ [CommDownloadDir ''/var/cache/apt/archives'' dir []] in
      case comm_DownloadDir env l ''/var/cache/apt/archives'' dir [] of
        Inl err \<Rightarrow>
          (Inl err, l1 @ [UiError (''APT cache update: failed to download archives to '' @ dir)])
      | Inr u \<Rightarrow>
          (let args = [''/bin/sh'', ''-c'', ''mv -n '' @ dir @ ''/*.deb '' @ CacheDir cfg];
               l2 = l1 @ [ExecRun args] in
           case cmd_Run env l1 args of
             Inl err \<Rightarrow> (Inl err, l2 @ [UiError (''APT cache update: mv: '' @ Error_text err)])
           | Inr u \<Rightarrow> (Inr (), l2)))"

text \<open>
  \<open>updateCache\<close>. The deferred \<open>os.RemoveAll(dir)\<close> runs when the function returns,
  whatever the rest of the body returned; its own result is dropped.
\<close>

definition updateCache :: "env \<Rightarrow> Config \<Rightarrow> event list \<Rightarrow> outcome" where
  "updateCache env cfg l =
     (let l1 = l @ [OsStat (CacheDir cfg)] in
      case os_Stat env l (CacheDir cfg) of
        Inl err \<Rightarrow>
          if os_IsNotExist err
          then (Inr (), l1 @ [UiSay ''Skipping updating package cache, likely not running on a debian based host.''])
          else (Inl err, l1)
      | Inr fi \<Rightarrow>
          (let l2 = l1 @ [IoTempDir (os_TempDir env) ''archives-''] in
           case ioutil_TempDir env l1 (os_TempDir env) ''archives-'' of
             Inl err \<Rightarrow> (Inl err, l2 @ [UiError ''APT cache update: failed to create tempdir''])
           | Inr dir \<Rightarrow>
               (case updateCache_deferred env cfg dir l2 of
                  (r, l3) \<Rightarrow> (r, l3 @ [OsRemoveAll dir]))))"

section \<open>Provision\<close>

text \<open>The end of \<open>Provision\<close>, from the installation of the packages on.\<close>

definition Provision_install :: "env \<Rightarrow> Config \<Rightarrow> event list \<Rightarrow> outcome" where
  "Provision_install env cfg l =
     (case installRemotePackages env cfg l of
        (Inl err, l1) \<Rightarrow> (Inl err, l1 @ [UiError ''apt-get install failed.''])
      | (Inr u, l1) \<Rightarrow>
          (case updateCache env cfg l1 of
             (Inl err, l2) \<Rightarrow> (Inl err, l2)
           | (Inr u, l2) \<Rightarrow>
               (case cleanRemotePackages env l2 of
                  (Inl err, l3) \<Rightarrow> (Inl err, l3 @ [UiError ''apt-get clean failed, ignoring''])
                | (Inr u, l3) \<Rightarrow> (Inr (), l3))))"

definition Provision :: "env \<Rightarrow> Config \<Rightarrow> outcome" where
  "Provision env cfg =
     (case uploadHostPackageCache env cfg [UiSay ''Provisioning with APT...''] of
        (Inl err, l1) \<Rightarrow>
          (Inl err, l1 @ [UiError (''Failed to upload APT cache from '' @ CacheDir cfg)])
      | (Inr u, l1) \<Rightarrow>
          (case uploadHostPackageTrust env cfg l1 of
             (Inl err, l2) \<Rightarrow> (Inl err, l2)
           | (Inr u, l2) \<Rightarrow>
               (case testRemoteDNS env l2 of
                  (Inl err, l3) \<Rightarrow>
                    (Inl err, l3 @ [UiError ''Failed waiting for domain name resolution''])
                | (Inr u, l3) \<Rightarrow>
                    if Sources cfg \<noteq> []
                    then
                      (case uploadPackageList env cfg l3 of
                         (Inl err, l4) \<Rightarrow>
                           (Inl err, l4 @ [UiError ''Failed to upload APT package list''])
                       | (Inr u, l4) \<Rightarrow>
                           (case updateRemotePackageIndex env l4 of
                              (Inl err, l5) \<Rightarrow> (Inl err, l5 @ [UiError ''apt-get update failed''])
                            | (Inr u, l5) \<Rightarrow> Provision_install env cfg l5))
                    else Provision_install env cfg l3)))"

section \<open>Observing a run\<close>

text \<open>
  What each step of \<open>Provision\<close> returns when it is run on the trace that the steps
  before it have left. The two conditional steps are run by \<open>Provision\<close> only when
  \<open>Sources\<close> is not empty, and the installation follows the index refresh in that
  case and the DNS wait otherwise.
\<close>

definition stage_cache :: "env \<Rightarrow> Config \<Rightarrow> outcome" where
  "stage_cache env cfg = uploadHostPackageCache env cfg [UiSay ''Provisioning with APT...'']"

definition stage_trust :: "env \<Rightarrow> Config \<Rightarrow> outcome" where
  "stage_trust env cfg = uploadHostPackageTrust env cfg (snd (stage_cache env cfg))"

definition stage_dns :: "env \<Rightarrow> Config \<Rightarrow> outcome" where
  "stage_dns env cfg = testRemoteDNS env (snd (stage_trust env cfg))"

definition stage_list :: "env \<Rightarrow> Config \<Rightarrow> outcome" where
  "stage_list env cfg = uploadPackageList env cfg (snd (stage_dns env cfg))"

definition stage_index :: "env \<Rightarrow> Config \<Rightarrow> outcome" where
  "stage_index env cfg = updateRemotePackageIndex env (snd (stage_list env cfg))"

definition stage_install :: "env \<Rightarrow> Config \<Rightarrow> outcome" where
  "stage_install env cfg =
     installRemotePackages env cfg
       (if Sources cfg \<noteq> [] then snd (stage_index env cfg) else snd (stage_dns env cfg))"

definition stage_updateCache :: "env \<Rightarrow> Config \<Rightarrow> outcome" where
  "stage_updateCache env cfg = updateCache env cfg (snd (stage_install env cfg))"

definition stage_clean :: "env \<Rightarrow> Config \<Rightarrow> outcome" where
  "stage_clean env cfg = cleanRemotePackages env (snd (stage_updateCache env cfg))"

text \<open>The calls of the two conditional steps, recognised in a trace.\<close>

fun is_sources_upload :: "event \<Rightarrow> bool" where
  "is_sources_upload (CommUpload path r fi) = (path = ''/etc/apt/sources.list.d/packer.list'')"
| "is_sources_upload e = False"

definition is_index_refresh :: "event \<Rightarrow> bool" where
  "is_index_refresh e = (e = RunWithUi ''/usr/bin/apt-get update'')"

text \<open>
  The calls that are neither a remote command nor an upload of the source list: all that the
  cache upload, the key upload and the cache update ever make.
\<close>

fun is_local_call :: "event \<Rightarrow> bool" where
  "is_local_call (RunWithUi c) = False"
| "is_local_call (CommUpload path r fi) = (path \<noteq> ''/etc/apt/sources.list.d/packer.list'')"
| "is_local_call e = True"




section \<open>Example hosts and configurations\<close>

text \<open>
  A Debian host on which every path exists, the cache path is a directory, and every
  transfer and command succeeds.
\<close>

definition host_ok :: env where
  "host_ok =
     \<lparr> os_Stat = (\<lambda>l p. Inr (FileInfo True)),
       os_Open = (\<lambda>l p. Inr ()),
       file_Stat = (\<lambda>l p. Inr (FileInfo False)),
       os_TempDir = ''/tmp'',
       ioutil_TempDir = (\<lambda>l d pre. Inr (d @ ''/'' @ pre @ ''1234'')),
       cmd_Run = (\<lambda>l args. Inr ()),
       comm_Upload = (\<lambda>l path r fi. Inr ()),
       comm_UploadDir = (\<lambda>l dst src excl. Inr ()),
       comm_DownloadDir = (\<lambda>l src dst excl. Inr ()),
       cmd_RunWithUi = (\<lambda>l c. Inr ()) \<rparr>"

text \<open>A host without the cache directory and without any key file.\<close>

definition host_not_debian :: env where
  "host_not_debian =
     host_ok\<lparr> os_Stat := (\<lambda>l p. Inl (ErrNotExist ''no such file or directory'')),
              os_Open := (\<lambda>l p. Inl (ErrNotExist ''no such file or directory'')) \<rparr>"

text \<open>A host on which the cache path is a regular file.\<close>

definition host_cache_is_file :: env where
  "host_cache_is_file = host_ok\<lparr> os_Stat := (\<lambda>l p. Inr (FileInfo False)) \<rparr>"

text \<open>Hosts and targets on which one operation fails.\<close>

definition host_remote_fails :: "env \<Rightarrow> string \<Rightarrow> env" where
  "host_remote_fails env c =
     env\<lparr> cmd_RunWithUi := (\<lambda>l x. if x = c then Inl (ErrOther ''exit status 100'') else Inr ()) \<rparr>"

definition host_upload_fails :: "env \<Rightarrow> string \<Rightarrow> env" where
  "host_upload_fails env path =
     env\<lparr> comm_Upload := (\<lambda>l p r fi. if p = path then Inl (ErrOther ''upload failed'') else Inr ()) \<rparr>"

definition host_uploaddir_fails :: env where
  "host_uploaddir_fails =
     host_ok\<lparr> comm_UploadDir := (\<lambda>l dst src excl. Inl (ErrOther ''upload failed'')) \<rparr>"

definition host_download_fails :: env where
  "host_download_fails =
     host_ok\<lparr> comm_DownloadDir := (\<lambda>l src dst excl. Inl (ErrOther ''download failed'')) \<rparr>"

definition host_mv_fails :: env where
  "host_mv_fails = host_ok\<lparr> cmd_Run := (\<lambda>l args. Inl (ErrOther ''exit status 1'')) \<rparr>"

definition host_key_denied :: env where
  "host_key_denied = host_ok\<lparr> os_Open := (\<lambda>l p. Inl (ErrOther ''permission denied'')) \<rparr>"

definition cfg_curl :: Config where
  "cfg_curl = \<lparr> Packages = [''curl''], Sources = [], Keys = [], CacheDir = ''/var/cache/apt/archives'' \<rparr>"

definition cfg_bullseye :: Config where
  "cfg_bullseye =
     \<lparr> Packages = [''curl'', ''git''],
       Sources = [''deb http://deb.debian.org/debian bullseye main''],
       Keys = [''/usr/share/keyrings/debian.gpg''],
       CacheDir = ''/var/cache/apt/archives'' \<rparr>"

text \<open>Hosts on which the key file is gone, or cannot be read, once it has been opened.\<close>

definition host_key_vanishes :: env where
  "host_key_vanishes = host_ok\<lparr> file_Stat := (\<lambda>l p. Inl (ErrNotExist ''no such file or directory'')) \<rparr>"

definition host_key_stat_fails :: env where
  "host_key_stat_fails = host_ok\<lparr> file_Stat := (\<lambda>l p. Inl (ErrOther ''input/output error'')) \<rparr>"

text \<open>Two key paths, of which a host has only the second.\<close>

abbreviation key_debian :: string where
  "key_debian \<equiv> ''/usr/share/keyrings/debian.gpg''"



definition host_one_key_missing :: env where
  "host_one_key_missing =
     host_ok\<lparr> os_Open := (\<lambda>l p. if p = ''/etc/apt/keys/missing.gpg''
                              then Inl (ErrNotExist ''no such file or directory'') else Inr ()) \<rparr>"

definition cfg_two_keys :: Config where
  "cfg_two_keys = cfg_curl\<lparr> Keys := [''/etc/apt/keys/missing.gpg'', ''/usr/share/keyrings/debian.gpg''] \<rparr>"

text \<open>A decoder that succeeds and stores the raw blocks as the package list.\<close>

definition decode_example :: "Config \<Rightarrow> string list \<Rightarrow> (go_error + unit) \<times> Config" where
  "decode_example c raws = (Inr (), c\<lparr>Packages := raws\<rparr>)"

section \<open>Properties of the configuration\<close>

text \<open>
  C3. When the decoder succeeds, \<open>Config.Prepare\<close> returns no error, and the
  configuration it leaves is the decoded one with \<open>cache_dir\<close> set to
  \<open>/var/cache/apt/archives\<close> if it was empty and left as it was otherwise.
\<close>

theorem Prepare_cache_dir_default:
  assumes "Decode c raws = (Inr (), c1)"
  shows "Prepare Decode c raws =
           (Inr (), c1\<lparr>CacheDir := if CacheDir c1 = [] then ''/var/cache/apt/archives'' else CacheDir c1\<rparr>)"
  using assms by (simp add: Prepare_def)

theorem Prepare_cache_dir_default_witness:
  "decode_example (cfg_curl\<lparr>CacheDir := []\<rparr>) [''curl''] = (Inr (), cfg_curl\<lparr>CacheDir := []\<rparr>)
   \<and> Prepare decode_example (cfg_curl\<lparr>CacheDir := []\<rparr>) [''curl''] = (Inr (), cfg_curl)
   \<and> decode_example (cfg_curl\<lparr>CacheDir := ''/srv/apt''\<rparr>) [''curl''] = (Inr (), cfg_curl\<lparr>CacheDir := ''/srv/apt''\<rparr>)
   \<and> Prepare decode_example (cfg_curl\<lparr>CacheDir := ''/srv/apt''\<rparr>) [''curl''] = (Inr (), cfg_curl\<lparr>CacheDir := ''/srv/apt''\<rparr>)"
  using Prepare_cache_dir_default [of decode_example "cfg_curl\<lparr>CacheDir := []\<rparr>" "[''curl'']" "cfg_curl\<lparr>CacheDir := []\<rparr>"]
        Prepare_cache_dir_default [of decode_example "cfg_curl\<lparr>CacheDir := ''/srv/apt''\<rparr>" "[''curl'']" "cfg_curl\<lparr>CacheDir := ''/srv/apt''\<rparr>"]
  by (simp add: decode_example_def cfg_curl_def)

section \<open>Properties of the single steps\<close>

text \<open>The base name of a path, on some paths.\<close>

lemma filepath_Base_examples:
  "filepath_Base ''/usr/share/keyrings/debian.gpg'' = ''debian.gpg''"
  "filepath_Base ''keys/debian.gpg///'' = ''debian.gpg''"
  "filepath_Base ''debian.gpg'' = ''debian.gpg''"
  "filepath_Base ''///'' = ''/''"
  "filepath_Base [] = ''.''"
  by (simp_all add: filepath_Base_def IsPathSeparator_def)

text \<open>Joining with a separator and appending it once more ends every element with it.\<close>

lemma strings_Join_lines:
  "xs \<noteq> [] \<Longrightarrow> strings_Join xs sep @ sep = concat (map (\<lambda>x. x @ sep) xs)"
  by (induction xs sep rule: strings_Join.induct) simp_all

text \<open>A joined list is its first element, then the separator before each further element.\<close>

lemma strings_Join_separated:
  "strings_Join (x # ys) sep = x @ concat (map (\<lambda>y. sep @ y) ys)"
  by (induction ys arbitrary: x) simp_all

text \<open>
  C4. For a non-empty \<open>sources\<close>, \<open>uploadPackageList\<close> makes one call, an upload to
  \<open>/etc/apt/sources.list.d/packer.list\<close>. The content uploaded is the first source
  line, then a newline before each further line, then one more newline; which is to say
  every source line, in order, each ended by one newline.
\<close>

theorem uploadPackageList_content:
  assumes "Sources cfg = s # ss"
  shows "snd (uploadPackageList env cfg l) =
           l @ [CommUpload ''/etc/apt/sources.list.d/packer.list''
                  (StringReader (s @ concat (map (\<lambda>t. [CHR 0x0A] @ t) ss) @ [CHR 0x0A])) None]
       \<and> snd (uploadPackageList env cfg l) =
           l @ [CommUpload ''/etc/apt/sources.list.d/packer.list''
                  (StringReader (concat (map (\<lambda>t. t @ [CHR 0x0A]) (Sources cfg)))) None]"
proof
  show "snd (uploadPackageList env cfg l) =
           l @ [CommUpload ''/etc/apt/sources.list.d/packer.list''
                  (StringReader (s @ concat (map (\<lambda>t. [CHR 0x0A] @ t) ss) @ [CHR 0x0A])) None]"
    using assms strings_Join_separated [of s ss "[CHR 0x0A]"]
    by (simp add: uploadPackageList_def Let_def split: sum.split)
  have "Sources cfg \<noteq> []"
    using assms by simp
  from strings_Join_lines [OF this, of "[CHR 0x0A]"]
  show "snd (uploadPackageList env cfg l) =
           l @ [CommUpload ''/etc/apt/sources.list.d/packer.list''
                  (StringReader (concat (map (\<lambda>t. t @ [CHR 0x0A]) (Sources cfg)))) None]"
    by (simp add: uploadPackageList_def Let_def split: sum.split)
qed

theorem uploadPackageList_content_witness:
  "Sources (cfg_curl\<lparr>Sources := [''deb http://deb.debian.org/debian bullseye main'',
                                 ''deb http://security.debian.org/debian-security bullseye-security main'',
                                 ''deb-src http://deb.debian.org/debian bullseye main'']\<rparr>)
     = ''deb http://deb.debian.org/debian bullseye main''
       # [''deb http://security.debian.org/debian-security bullseye-security main'',
          ''deb-src http://deb.debian.org/debian bullseye main'']
   \<and> snd (uploadPackageList host_ok
            (cfg_curl\<lparr>Sources := [''deb http://deb.debian.org/debian bullseye main'',
                                  ''deb http://security.debian.org/debian-security bullseye-security main'',
                                  ''deb-src http://deb.debian.org/debian bullseye main'']\<rparr>) []) =
       [CommUpload ''/etc/apt/sources.list.d/packer.list''
          (StringReader
             (''deb http://deb.debian.org/debian bullseye main'' @ [CHR 0x0A]
              @ ''deb http://security.debian.org/debian-security bullseye-security main'' @ [CHR 0x0A]
              @ ''deb-src http://deb.debian.org/debian bullseye main'' @ [CHR 0x0A])) None]"
  using uploadPackageList_content
    [of "cfg_curl\<lparr>Sources := [''deb http://deb.debian.org/debian bullseye main'',
                                  ''deb http://security.debian.org/debian-security bullseye-security main'',
                                  ''deb-src http://deb.debian.org/debian bullseye main'']\<rparr>"
        "''deb http://deb.debian.org/debian bullseye main''"
        "[''deb http://security.debian.org/debian-security bullseye-security main'',
          ''deb-src http://deb.debian.org/debian bullseye main'']"
        host_ok "[]", THEN conjunct1]
  by simp

text \<open>
  C7. \<open>installRemotePackages\<close> issues exactly one remote command: the fixed
  \<open>apt-get install\<close> prefix followed by the first package and then, before each further
  package, one space and that package, in the order of \<open>packages\<close>. With no package the
  command is the prefix alone, and it is issued all the same; with three packages their names
  follow the prefix with one space between them.
\<close>

theorem installRemotePackages_command:
  "snd (installRemotePackages env cfg l) =
     l @ [RunWithUi
            (''DEBIAN_FRONTEND=noninteractive /usr/bin/apt-get install -y --no-install-recommends ''
             @ (case Packages cfg of
                  [] \<Rightarrow> []
                | p # ps \<Rightarrow> p @ concat (map (\<lambda>q. '' '' @ q) ps)))]
   \<and> snd (installRemotePackages env (cfg\<lparr>Packages := []\<rparr>) l) =
     l @ [RunWithUi ''DEBIAN_FRONTEND=noninteractive /usr/bin/apt-get install -y --no-install-recommends '']
   \<and> snd (installRemotePackages env (cfg\<lparr>Packages := [''curl'', ''git'', ''ca-certificates'']\<rparr>) l) =
     l @ [RunWithUi ''DEBIAN_FRONTEND=noninteractive /usr/bin/apt-get install -y --no-install-recommends curl git ca-certificates'']"
proof -
  have general: "snd (installRemotePackages env c l) =
     l @ [RunWithUi
            (''DEBIAN_FRONTEND=noninteractive /usr/bin/apt-get install -y --no-install-recommends ''
             @ (case Packages c of
                  [] \<Rightarrow> []
                | p # ps \<Rightarrow> p @ concat (map (\<lambda>q. '' '' @ q) ps)))]" for c
  proof -
    have "snd (installRemotePackages env c l) = l @ [RunWithUi (install_command c)]"
      by (simp add: installRemotePackages_def split: sum.split)
    moreover have "install_command c =
        ''DEBIAN_FRONTEND=noninteractive /usr/bin/apt-get install -y --no-install-recommends ''
          @ (case Packages c of
               [] \<Rightarrow> []
             | p # ps \<Rightarrow> p @ concat (map (\<lambda>q. '' '' @ q) ps))"
      unfolding install_command_def
      by (cases "Packages c") (simp_all only: strings_Join.simps strings_Join_separated list.case)
    ultimately show ?thesis
      by (simp only:)
  qed
  show ?thesis
    using general [of cfg] general [of "cfg\<lparr>Packages := []\<rparr>"]
      general [of "cfg\<lparr>Packages := [''curl'', ''git'', ''ca-certificates'']\<rparr>"]
    by simp
qed

theorem installRemotePackages_command_witness:
  "installRemotePackages host_ok cfg_bullseye [RunWithUi ''/usr/bin/apt-get update''] =
     (Inr (),
      [RunWithUi ''/usr/bin/apt-get update'',
       RunWithUi ''DEBIAN_FRONTEND=noninteractive /usr/bin/apt-get install -y --no-install-recommends curl git''])"
proof -
  have r: "fst (installRemotePackages host_ok cfg_bullseye [RunWithUi ''/usr/bin/apt-get update'']) = Inr ()"
    by (simp add: installRemotePackages_def host_ok_def)
  have p: "Packages cfg_bullseye = [''curl'', ''git'']"
    by (simp add: cfg_bullseye_def)
  from installRemotePackages_command [of host_ok cfg_bullseye "[RunWithUi ''/usr/bin/apt-get update'']",
      THEN conjunct1]
  have "snd (installRemotePackages host_ok cfg_bullseye [RunWithUi ''/usr/bin/apt-get update'']) =
      [RunWithUi ''/usr/bin/apt-get update'',
       RunWithUi ''DEBIAN_FRONTEND=noninteractive /usr/bin/apt-get install -y --no-install-recommends curl git'']"
    by (simp add: p)
  with r show ?thesis
    by (simp add: prod_eq_iff)
qed

text \<open>
  C8. When \<open>os.Stat\<close> reports that \<open>cache_dir\<close> does not exist, the cache upload and
  the cache update each make that one call, log their skip message and return no error:
  nothing is uploaded, downloaded or moved.
\<close>

theorem cache_dir_absent_skips:
  assumes "os_Stat env l1 (CacheDir cfg) = Inl e1" and "os_IsNotExist e1"
    and "os_Stat env l7 (CacheDir cfg) = Inl e7" and "os_IsNotExist e7"
  shows "uploadHostPackageCache env cfg l1 =
           (Inr (), l1 @ [OsStat (CacheDir cfg),
              UiSay ''Host APT package cache not found, likely not running on a debian based host. Proceeding regardless''])
       \<and> updateCache env cfg l7 =
           (Inr (), l7 @ [OsStat (CacheDir cfg),
              UiSay ''Skipping updating package cache, likely not running on a debian based host.''])"
  using assms by (simp add: uploadHostPackageCache_def updateCache_def)

theorem cache_dir_absent_skips_witness:
  "os_Stat host_not_debian [UiSay ''Provisioning with APT...''] (CacheDir cfg_curl)
     = Inl (ErrNotExist ''no such file or directory'')
   \<and> os_IsNotExist (ErrNotExist ''no such file or directory'')
   \<and> os_Stat host_not_debian [] (CacheDir cfg_curl) = Inl (ErrNotExist ''no such file or directory'')
   \<and> uploadHostPackageCache host_not_debian cfg_curl [UiSay ''Provisioning with APT...''] =
       (Inr (), [UiSay ''Provisioning with APT...'', OsStat ''/var/cache/apt/archives'',
          UiSay ''Host APT package cache not found, likely not running on a debian based host. Proceeding regardless''])
   \<and> updateCache host_not_debian cfg_curl [] =
       (Inr (), [OsStat ''/var/cache/apt/archives'',
          UiSay ''Skipping updating package cache, likely not running on a debian based host.''])"
  using cache_dir_absent_skips [of host_not_debian "[UiSay ''Provisioning with APT...'']" cfg_curl
          "ErrNotExist ''no such file or directory''" "[]" "ErrNotExist ''no such file or directory''"]
  by (simp add: host_not_debian_def host_ok_def cfg_curl_def)

text \<open>
  C9. Once \<open>updateCache\<close> has created its temporary directory, the last call it makes
  is \<open>os.RemoveAll\<close> on that directory, whatever the download and the move returned.
\<close>

theorem updateCache_removes_tempdir:
  assumes "os_Stat env l (CacheDir cfg) = Inr fi"
    and "ioutil_TempDir env (l @ [OsStat (CacheDir cfg)]) (os_TempDir env) ''archives-'' = Inr dir"
  shows "\<exists>mid. snd (updateCache env cfg l) =
           l @ [OsStat (CacheDir cfg), IoTempDir (os_TempDir env) ''archives-''] @ mid @ [OsRemoveAll dir]
           \<and> OsRemoveAll dir \<notin> set mid"
  using assms
  by (auto simp add: updateCache_def updateCache_deferred_def Let_def split: sum.split prod.split)

theorem updateCache_removes_tempdir_witness:
  "os_Stat host_download_fails [] (CacheDir cfg_curl) = Inr (FileInfo True)
   \<and> ioutil_TempDir host_download_fails [OsStat (CacheDir cfg_curl)] (os_TempDir host_download_fails) ''archives-''
       = Inr ''/tmp/archives-1234''
   \<and> updateCache host_download_fails cfg_curl [] =
       (Inl (ErrOther ''download failed''),
        [OsStat ''/var/cache/apt/archives'', IoTempDir ''/tmp'' ''archives-'',
         CommDownloadDir ''/var/cache/apt/archives'' ''/tmp/archives-1234'' [],
         UiError ''APT cache update: failed to download archives to /tmp/archives-1234'',
         OsRemoveAll ''/tmp/archives-1234''])
   \<and> os_Stat host_mv_fails [] (CacheDir cfg_curl) = Inr (FileInfo True)
   \<and> ioutil_TempDir host_mv_fails [OsStat (CacheDir cfg_curl)] (os_TempDir host_mv_fails) ''archives-''
       = Inr ''/tmp/archives-1234''
   \<and> updateCache host_mv_fails cfg_curl [] =
       (Inl (ErrOther ''exit status 1''),
        [OsStat ''/var/cache/apt/archives'', IoTempDir ''/tmp'' ''archives-'',
         CommDownloadDir ''/var/cache/apt/archives'' ''/tmp/archives-1234'' [],
         ExecRun [''/bin/sh'', ''-c'', ''mv -n /tmp/archives-1234/*.deb /var/cache/apt/archives''],
         UiError ''APT cache update: mv: exit status 1'',
         OsRemoveAll ''/tmp/archives-1234''])
   \<and> os_Stat host_ok [] (CacheDir cfg_curl) = Inr (FileInfo True)
   \<and> ioutil_TempDir host_ok [OsStat (CacheDir cfg_curl)] (os_TempDir host_ok) ''archives-''
       = Inr ''/tmp/archives-1234''
   \<and> updateCache host_ok cfg_curl [] =
       (Inr (),
        [OsStat ''/var/cache/apt/archives'', IoTempDir ''/tmp'' ''archives-'',
         CommDownloadDir ''/var/cache/apt/archives'' ''/tmp/archives-1234'' [],
         ExecRun [''/bin/sh'', ''-c'', ''mv -n /tmp/archives-1234/*.deb /var/cache/apt/archives''],
         OsRemoveAll ''/tmp/archives-1234''])
   \<and> last (snd (updateCache host_download_fails cfg_curl [])) = OsRemoveAll ''/tmp/archives-1234''
   \<and> last (snd (updateCache host_mv_fails cfg_curl [])) = OsRemoveAll ''/tmp/archives-1234''
   \<and> last (snd (updateCache host_ok cfg_curl [])) = OsRemoveAll ''/tmp/archives-1234''"
proof -
  have a: "os_Stat host_download_fails [] (CacheDir cfg_curl) = Inr (FileInfo True)"
    "ioutil_TempDir host_download_fails ([] @ [OsStat (CacheDir cfg_curl)]) (os_TempDir host_download_fails) ''archives-''
       = Inr ''/tmp/archives-1234''"
    "os_Stat host_mv_fails [] (CacheDir cfg_curl) = Inr (FileInfo True)"
    "ioutil_TempDir host_mv_fails ([] @ [OsStat (CacheDir cfg_curl)]) (os_TempDir host_mv_fails) ''archives-''
       = Inr ''/tmp/archives-1234''"
    "os_Stat host_ok [] (CacheDir cfg_curl) = Inr (FileInfo True)"
    "ioutil_TempDir host_ok ([] @ [OsStat (CacheDir cfg_curl)]) (os_TempDir host_ok) ''archives-''
       = Inr ''/tmp/archives-1234''"
    by (simp_all add: host_download_fails_def host_mv_fails_def host_ok_def)
  have r: "last (snd (updateCache host_download_fails cfg_curl [])) = OsRemoveAll ''/tmp/archives-1234''"
    "last (snd (updateCache host_mv_fails cfg_curl [])) = OsRemoveAll ''/tmp/archives-1234''"
    "last (snd (updateCache host_ok cfg_curl [])) = OsRemoveAll ''/tmp/archives-1234''"
    using updateCache_removes_tempdir [OF a(1) a(2)] updateCache_removes_tempdir [OF a(3) a(4)]
      updateCache_removes_tempdir [OF a(5) a(6)]
    by auto
  have e: "updateCache host_download_fails cfg_curl [] =
       (Inl (ErrOther ''download failed''),
        [OsStat ''/var/cache/apt/archives'', IoTempDir ''/tmp'' ''archives-'',
         CommDownloadDir ''/var/cache/apt/archives'' ''/tmp/archives-1234'' [],
         UiError ''APT cache update: failed to download archives to /tmp/archives-1234'',
         OsRemoveAll ''/tmp/archives-1234''])"
    "updateCache host_mv_fails cfg_curl [] =
       (Inl (ErrOther ''exit status 1''),
        [OsStat ''/var/cache/apt/archives'', IoTempDir ''/tmp'' ''archives-'',
         CommDownloadDir ''/var/cache/apt/archives'' ''/tmp/archives-1234'' [],
         ExecRun [''/bin/sh'', ''-c'', ''mv -n /tmp/archives-1234/*.deb /var/cache/apt/archives''],
         UiError ''APT cache update: mv: exit status 1'',
         OsRemoveAll ''/tmp/archives-1234''])"
    "updateCache host_ok cfg_curl [] =
       (Inr (),
        [OsStat ''/var/cache/apt/archives'', IoTempDir ''/tmp'' ''archives-'',
         CommDownloadDir ''/var/cache/apt/archives'' ''/tmp/archives-1234'' [],
         ExecRun [''/bin/sh'', ''-c'', ''mv -n /tmp/archives-1234/*.deb /var/cache/apt/archives''],
         OsRemoveAll ''/tmp/archives-1234''])"
    by (simp_all add: updateCache_def updateCache_deferred_def host_download_fails_def host_mv_fails_def
        host_ok_def cfg_curl_def)
  show ?thesis
    by (intro conjI) (use a r e in \<open>simp_all only: append_Nil simp_thms\<close>)
qed


section \<open>Traces of the steps\<close>

text \<open>Every step only adds calls to the trace it is given.\<close>

lemma uploadHostPackageTrust_loop_extends:
  "\<exists>t. snd (uploadHostPackageTrust_loop env keys opened l) = l @ t"
  by (induction env keys opened l rule: uploadHostPackageTrust_loop.induct)
     (auto split: sum.split)

lemma uploadHostPackageTrust_extends:
  "\<exists>t. snd (uploadHostPackageTrust env cfg l) = l @ t"
  by (simp add: uploadHostPackageTrust_def uploadHostPackageTrust_loop_extends)

lemma testRemoteDNS_trace: "snd (testRemoteDNS env l) = l @ [RunWithUi dns_command]"
  by (simp add: testRemoteDNS_def split: sum.split)

lemma updateRemotePackageIndex_trace:
  "snd (updateRemotePackageIndex env l) = l @ [RunWithUi ''/usr/bin/apt-get update'']"
  by (simp add: updateRemotePackageIndex_def split: sum.split)

lemma cleanRemotePackages_trace:
  "snd (cleanRemotePackages env l) = l @ [RunWithUi ''/usr/bin/apt-get clean'']"
  by (simp add: cleanRemotePackages_def split: sum.split)

lemma installRemotePackages_trace:
  "snd (installRemotePackages env cfg l) = l @ [RunWithUi (install_command cfg)]"
  by (simp add: installRemotePackages_def split: sum.split)

lemma uploadPackageList_trace:
  "snd (uploadPackageList env cfg l) =
     l @ [CommUpload ''/etc/apt/sources.list.d/packer.list''
            (StringReader (strings_Join (Sources cfg) [CHR 0x0A] @ [CHR 0x0A])) None]"
  by (simp add: uploadPackageList_def Let_def split: sum.split)

lemma updateCache_extends: "\<exists>t. snd (updateCache env cfg l) = l @ t"
  by (auto simp add: updateCache_def updateCache_deferred_def Let_def split: sum.split prod.split)

lemma uploadHostPackageCache_extends: "\<exists>t. snd (uploadHostPackageCache env cfg l) = l @ t"
  by (auto simp add: uploadHostPackageCache_def Let_def split: sum.split)

lemma Provision_install_extends: "\<exists>t. snd (Provision_install env cfg l) = l @ t"
proof -
  let ?l1 = "l @ [RunWithUi (install_command cfg)]"
  obtain r1 where s1: "installRemotePackages env cfg l = (r1, ?l1)"
    using installRemotePackages_trace [of env cfg l] by (cases "installRemotePackages env cfg l") simp
  obtain r2 t2 where s2: "updateCache env cfg ?l1 = (r2, ?l1 @ t2)"
    using updateCache_extends [of env cfg ?l1] by (cases "updateCache env cfg ?l1") auto
  obtain r3 where s3: "cleanRemotePackages env (?l1 @ t2) = (r3, ?l1 @ t2 @ [RunWithUi ''/usr/bin/apt-get clean''])"
    using cleanRemotePackages_trace [of env "?l1 @ t2"] by (cases "cleanRemotePackages env (?l1 @ t2)") simp
  show ?thesis
    unfolding Provision_install_def s1
    using s2 s3 by (auto split: sum.split)
qed

section \<open>Where a run of Provision ends\<close>

text \<open>Unfolding sets for evaluating the steps on the example hosts.\<close>

lemmas step_defs =
  uploadHostPackageCache_def uploadHostPackageTrust_def testRemoteDNS_def uploadPackageList_def
  updateRemotePackageIndex_def installRemotePackages_def install_command_def
  updateCache_def updateCache_deferred_def cleanRemotePackages_def
  Provision_def Provision_install_def filepath_Base_def IsPathSeparator_def
  key_missing_message_def

lemmas stage_defs =
  stage_cache_def stage_trust_def stage_dns_def stage_list_def stage_index_def
  stage_install_def stage_updateCache_def stage_clean_def

lemmas host_defs =
  host_ok_def host_not_debian_def host_cache_is_file_def host_remote_fails_def
  host_upload_fails_def host_uploaddir_fails_def host_download_fails_def host_mv_fails_def
  host_key_denied_def host_key_vanishes_def host_key_stat_fails_def host_one_key_missing_def
  cfg_curl_def cfg_bullseye_def cfg_two_keys_def

text \<open>
  The run up to the first failing step: \<open>Provision\<close> returns that step's error, and its
  trace is the trace at the return of the failing step followed by the message it logs.
\<close>

lemma fails_at_cache:
  "fst (stage_cache env cfg) = Inl e \<Longrightarrow>
   Provision env cfg =
     (Inl e, snd (stage_cache env cfg) @ [UiError (''Failed to upload APT cache from '' @ CacheDir cfg)])"
  by (auto simp add: Provision_def stage_cache_def split: prod.splits sum.splits)

lemma fails_at_trust:
  "fst (stage_cache env cfg) = Inr () \<Longrightarrow> fst (stage_trust env cfg) = Inl e \<Longrightarrow>
   Provision env cfg = (Inl e, snd (stage_trust env cfg))"
  by (auto simp add: Provision_def stage_cache_def stage_trust_def split: prod.splits sum.splits)

lemma fails_at_dns:
  "fst (stage_cache env cfg) = Inr () \<Longrightarrow> fst (stage_trust env cfg) = Inr () \<Longrightarrow>
   fst (stage_dns env cfg) = Inl e \<Longrightarrow>
   Provision env cfg =
     (Inl e, snd (stage_dns env cfg) @ [UiError ''Failed waiting for domain name resolution''])"
  by (auto simp add: Provision_def stage_cache_def stage_trust_def stage_dns_def
      split: prod.splits sum.splits)

lemma fails_at_list:
  "fst (stage_cache env cfg) = Inr () \<Longrightarrow> fst (stage_trust env cfg) = Inr () \<Longrightarrow>
   fst (stage_dns env cfg) = Inr () \<Longrightarrow> Sources cfg \<noteq> [] \<Longrightarrow>
   fst (stage_list env cfg) = Inl e \<Longrightarrow>
   Provision env cfg =
     (Inl e, snd (stage_list env cfg) @ [UiError ''Failed to upload APT package list''])"
  by (auto simp add: Provision_def stage_cache_def stage_trust_def stage_dns_def stage_list_def
      split: prod.splits sum.splits)

lemma fails_at_index:
  "fst (stage_cache env cfg) = Inr () \<Longrightarrow> fst (stage_trust env cfg) = Inr () \<Longrightarrow>
   fst (stage_dns env cfg) = Inr () \<Longrightarrow> Sources cfg \<noteq> [] \<Longrightarrow>
   fst (stage_list env cfg) = Inr () \<Longrightarrow> fst (stage_index env cfg) = Inl e \<Longrightarrow>
   Provision env cfg =
     (Inl e, snd (stage_index env cfg) @ [UiError ''apt-get update failed''])"
  by (auto simp add: Provision_def stage_cache_def stage_trust_def stage_dns_def stage_list_def
      stage_index_def split: prod.splits sum.splits)

lemma reaches_install:
  "fst (stage_cache env cfg) = Inr () \<Longrightarrow> fst (stage_trust env cfg) = Inr () \<Longrightarrow>
   fst (stage_dns env cfg) = Inr () \<Longrightarrow>
   Sources cfg = [] \<or> fst (stage_list env cfg) = Inr () \<and> fst (stage_index env cfg) = Inr () \<Longrightarrow>
   Provision env cfg =
     Provision_install env cfg
       (if Sources cfg \<noteq> [] then snd (stage_index env cfg) else snd (stage_dns env cfg))"
  by (auto simp add: Provision_def stage_cache_def stage_trust_def stage_dns_def stage_list_def
      stage_index_def split: prod.splits sum.splits)

lemma install_fails_at_install:
  "fst (installRemotePackages env cfg l) = Inl e \<Longrightarrow>
   Provision_install env cfg l =
     (Inl e, snd (installRemotePackages env cfg l) @ [UiError ''apt-get install failed.''])"
  by (auto simp add: Provision_install_def split: prod.splits sum.splits)

lemma install_fails_at_updateCache:
  "fst (installRemotePackages env cfg l) = Inr () \<Longrightarrow>
   fst (updateCache env cfg (snd (installRemotePackages env cfg l))) = Inl e \<Longrightarrow>
   Provision_install env cfg l =
     (Inl e, snd (updateCache env cfg (snd (installRemotePackages env cfg l))))"
  by (auto simp add: Provision_install_def split: prod.splits sum.splits)

lemma install_fails_at_clean:
  "fst (installRemotePackages env cfg l) = Inr () \<Longrightarrow>
   fst (updateCache env cfg (snd (installRemotePackages env cfg l))) = Inr () \<Longrightarrow>
   fst (cleanRemotePackages env (snd (updateCache env cfg (snd (installRemotePackages env cfg l))))) = Inl e \<Longrightarrow>
   Provision_install env cfg l =
     (Inl e, snd (cleanRemotePackages env (snd (updateCache env cfg (snd (installRemotePackages env cfg l)))))
       @ [UiError ''apt-get clean failed, ignoring''])"
  by (auto simp add: Provision_install_def split: prod.splits sum.splits)

lemma install_succeeds:
  "fst (installRemotePackages env cfg l) = Inr () \<Longrightarrow>
   fst (updateCache env cfg (snd (installRemotePackages env cfg l))) = Inr () \<Longrightarrow>
   fst (cleanRemotePackages env (snd (updateCache env cfg (snd (installRemotePackages env cfg l))))) = Inr () \<Longrightarrow>
   Provision_install env cfg l =
     (Inr (), snd (cleanRemotePackages env (snd (updateCache env cfg (snd (installRemotePackages env cfg l))))))"
  by (auto simp add: Provision_install_def split: prod.splits sum.splits)

text \<open>
  C2. When a step other than the final cleanup is the first to fail, \<open>Provision\<close> returns
  the error of that step, and its whole trace is the trace at the moment that step returned,
  followed at most by the one \<open>ui.Error\<close> message for that step: no call of a later step
  is made. One conjunct per step, in the order of the run; the source list upload and the
  index refresh are steps of the run only when \<open>sources\<close> is not empty.
\<close>

theorem Provision_short_circuit:
  "(fst (stage_cache env cfg) = Inl e \<longrightarrow>
      Provision env cfg =
        (Inl e, snd (stage_cache env cfg) @ [UiError (''Failed to upload APT cache from '' @ CacheDir cfg)]))
   \<and> (fst (stage_cache env cfg) = Inr () \<and> fst (stage_trust env cfg) = Inl e \<longrightarrow>
      Provision env cfg = (Inl e, snd (stage_trust env cfg)))
   \<and> (fst (stage_cache env cfg) = Inr () \<and> fst (stage_trust env cfg) = Inr ()
        \<and> fst (stage_dns env cfg) = Inl e \<longrightarrow>
      Provision env cfg =
        (Inl e, snd (stage_dns env cfg) @ [UiError ''Failed waiting for domain name resolution'']))
   \<and> (fst (stage_cache env cfg) = Inr () \<and> fst (stage_trust env cfg) = Inr ()
        \<and> fst (stage_dns env cfg) = Inr () \<and> Sources cfg \<noteq> []
        \<and> fst (stage_list env cfg) = Inl e \<longrightarrow>
      Provision env cfg =
        (Inl e, snd (stage_list env cfg) @ [UiError ''Failed to upload APT package list'']))
   \<and> (fst (stage_cache env cfg) = Inr () \<and> fst (stage_trust env cfg) = Inr ()
        \<and> fst (stage_dns env cfg) = Inr () \<and> Sources cfg \<noteq> []
        \<and> fst (stage_list env cfg) = Inr () \<and> fst (stage_index env cfg) = Inl e \<longrightarrow>
      Provision env cfg = (Inl e, snd (stage_index env cfg) @ [UiError ''apt-get update failed'']))
   \<and> (fst (stage_cache env cfg) = Inr () \<and> fst (stage_trust env cfg) = Inr ()
        \<and> fst (stage_dns env cfg) = Inr ()
        \<and> (Sources cfg = [] \<or> fst (stage_list env cfg) = Inr () \<and> fst (stage_index env cfg) = Inr ())
        \<and> fst (stage_install env cfg) = Inl e \<longrightarrow>
      Provision env cfg = (Inl e, snd (stage_install env cfg) @ [UiError ''apt-get install failed.'']))
   \<and> (fst (stage_cache env cfg) = Inr () \<and> fst (stage_trust env cfg) = Inr ()
        \<and> fst (stage_dns env cfg) = Inr ()
        \<and> (Sources cfg = [] \<or> fst (stage_list env cfg) = Inr () \<and> fst (stage_index env cfg) = Inr ())
        \<and> fst (stage_install env cfg) = Inr () \<and> fst (stage_updateCache env cfg) = Inl e \<longrightarrow>
      Provision env cfg = (Inl e, snd (stage_updateCache env cfg)))"
proof (intro conjI impI)
  assume "fst (stage_cache env cfg) = Inl e"
  then show "Provision env cfg =
      (Inl e, snd (stage_cache env cfg) @ [UiError (''Failed to upload APT cache from '' @ CacheDir cfg)])"
    by (rule fails_at_cache)
next
  assume "fst (stage_cache env cfg) = Inr () \<and> fst (stage_trust env cfg) = Inl e"
  then show "Provision env cfg = (Inl e, snd (stage_trust env cfg))"
    by (simp add: fails_at_trust)
next
  assume "fst (stage_cache env cfg) = Inr () \<and> fst (stage_trust env cfg) = Inr ()
        \<and> fst (stage_dns env cfg) = Inl e"
  then show "Provision env cfg =
        (Inl e, snd (stage_dns env cfg) @ [UiError ''Failed waiting for domain name resolution''])"
    by (simp add: fails_at_dns)
next
  assume "fst (stage_cache env cfg) = Inr () \<and> fst (stage_trust env cfg) = Inr ()
        \<and> fst (stage_dns env cfg) = Inr () \<and> Sources cfg \<noteq> []
        \<and> fst (stage_list env cfg) = Inl e"
  then show "Provision env cfg =
        (Inl e, snd (stage_list env cfg) @ [UiError ''Failed to upload APT package list''])"
    by (simp add: fails_at_list)
next
  assume "fst (stage_cache env cfg) = Inr () \<and> fst (stage_trust env cfg) = Inr ()
        \<and> fst (stage_dns env cfg) = Inr () \<and> Sources cfg \<noteq> []
        \<and> fst (stage_list env cfg) = Inr () \<and> fst (stage_index env cfg) = Inl e"
  then show "Provision env cfg = (Inl e, snd (stage_index env cfg) @ [UiError ''apt-get update failed''])"
    by (simp add: fails_at_index)
next
  assume a: "fst (stage_cache env cfg) = Inr () \<and> fst (stage_trust env cfg) = Inr ()
        \<and> fst (stage_dns env cfg) = Inr ()
        \<and> (Sources cfg = [] \<or> fst (stage_list env cfg) = Inr () \<and> fst (stage_index env cfg) = Inr ())
        \<and> fst (stage_install env cfg) = Inl e"
  then have "Provision env cfg =
     Provision_install env cfg
       (if Sources cfg \<noteq> [] then snd (stage_index env cfg) else snd (stage_dns env cfg))"
    by (intro reaches_install) simp_all
  with a show "Provision env cfg = (Inl e, snd (stage_install env cfg) @ [UiError ''apt-get install failed.''])"
    using install_fails_at_install
      [of env cfg "if Sources cfg \<noteq> [] then snd (stage_index env cfg) else snd (stage_dns env cfg)" e]
    by (simp add: stage_install_def)
next
  assume a: "fst (stage_cache env cfg) = Inr () \<and> fst (stage_trust env cfg) = Inr ()
        \<and> fst (stage_dns env cfg) = Inr ()
        \<and> (Sources cfg = [] \<or> fst (stage_list env cfg) = Inr () \<and> fst (stage_index env cfg) = Inr ())
        \<and> fst (stage_install env cfg) = Inr () \<and> fst (stage_updateCache env cfg) = Inl e"
  then have "Provision env cfg =
     Provision_install env cfg
       (if Sources cfg \<noteq> [] then snd (stage_index env cfg) else snd (stage_dns env cfg))"
    by (intro reaches_install) simp_all
  with a show "Provision env cfg = (Inl e, snd (stage_updateCache env cfg))"
    using install_fails_at_updateCache
      [of env cfg "if Sources cfg \<noteq> [] then snd (stage_index env cfg) else snd (stage_dns env cfg)" e]
    by (simp add: stage_install_def stage_updateCache_def)
qed

theorem Provision_short_circuit_witness:
  "fst (stage_cache host_uploaddir_fails cfg_bullseye) = Inl (ErrOther ''upload failed'')
   \<and> Provision host_uploaddir_fails cfg_bullseye =
       (Inl (ErrOther ''upload failed''),
        [UiSay ''Provisioning with APT...'', OsStat ''/var/cache/apt/archives'',
         CommUploadDir ''/var/cache/apt/archives'' ''/var/cache/apt/archives'' [],
         UiError ''Failed to upload APT cache from /var/cache/apt/archives''])
   \<and> fst (stage_cache host_key_denied cfg_bullseye) = Inr ()
   \<and> fst (stage_trust host_key_denied cfg_bullseye) = Inl (ErrOther ''permission denied'')
   \<and> Provision host_key_denied cfg_bullseye =
       (Inl (ErrOther ''permission denied''),
        [UiSay ''Provisioning with APT...'', OsStat ''/var/cache/apt/archives'',
         CommUploadDir ''/var/cache/apt/archives'' ''/var/cache/apt/archives'' [],
         OsOpen key_debian])
   \<and> fst (stage_cache (host_remote_fails host_ok dns_command) cfg_bullseye) = Inr ()
   \<and> fst (stage_trust (host_remote_fails host_ok dns_command) cfg_bullseye) = Inr ()
   \<and> fst (stage_dns (host_remote_fails host_ok dns_command) cfg_bullseye) = Inl (ErrOther ''exit status 100'')
   \<and> Provision (host_remote_fails host_ok dns_command) cfg_bullseye =
       (Inl (ErrOther ''exit status 100''),
        [UiSay ''Provisioning with APT...'', OsStat ''/var/cache/apt/archives'',
         CommUploadDir ''/var/cache/apt/archives'' ''/var/cache/apt/archives'' [],
         OsOpen key_debian, FileStat key_debian,
         CommUpload ''/etc/apt/trusted.gpg.d/debian.gpg'' (FileReader key_debian) (Some (FileInfo False)),
         FileClose key_debian,
         RunWithUi dns_command,
         UiError ''Failed waiting for domain name resolution''])
   \<and> fst (stage_cache (host_upload_fails host_ok ''/etc/apt/sources.list.d/packer.list'') cfg_bullseye) = Inr ()
   \<and> fst (stage_trust (host_upload_fails host_ok ''/etc/apt/sources.list.d/packer.list'') cfg_bullseye) = Inr ()
   \<and> fst (stage_dns (host_upload_fails host_ok ''/etc/apt/sources.list.d/packer.list'') cfg_bullseye) = Inr ()
   \<and> fst (stage_list (host_upload_fails host_ok ''/etc/apt/sources.list.d/packer.list'') cfg_bullseye) = Inl (ErrOther ''upload failed'')
   \<and> Provision (host_upload_fails host_ok ''/etc/apt/sources.list.d/packer.list'') cfg_bullseye =
       (Inl (ErrOther ''upload failed''),
        [UiSay ''Provisioning with APT...'', OsStat ''/var/cache/apt/archives'',
         CommUploadDir ''/var/cache/apt/archives'' ''/var/cache/apt/archives'' [],
         OsOpen key_debian, FileStat key_debian,
         CommUpload ''/etc/apt/trusted.gpg.d/debian.gpg'' (FileReader key_debian) (Some (FileInfo False)),
         FileClose key_debian,
         RunWithUi dns_command,
         CommUpload ''/etc/apt/sources.list.d/packer.list''
           (StringReader (''deb http://deb.debian.org/debian bullseye main'' @ [CHR 0x0A])) None,
         UiError ''Failed to upload APT package list''])
   \<and> fst (stage_cache (host_remote_fails host_ok ''/usr/bin/apt-get update'') cfg_bullseye) = Inr ()
   \<and> fst (stage_trust (host_remote_fails host_ok ''/usr/bin/apt-get update'') cfg_bullseye) = Inr ()
   \<and> fst (stage_dns (host_remote_fails host_ok ''/usr/bin/apt-get update'') cfg_bullseye) = Inr ()
   \<and> fst (stage_list (host_remote_fails host_ok ''/usr/bin/apt-get update'') cfg_bullseye) = Inr ()
   \<and> fst (stage_index (host_remote_fails host_ok ''/usr/bin/apt-get update'') cfg_bullseye) = Inl (ErrOther ''exit status 100'')
   \<and> Provision (host_remote_fails host_ok ''/usr/bin/apt-get update'') cfg_bullseye =
       (Inl (ErrOther ''exit status 100''),
        [UiSay ''Provisioning with APT...'', OsStat ''/var/cache/apt/archives'',
         CommUploadDir ''/var/cache/apt/archives'' ''/var/cache/apt/archives'' [],
         OsOpen key_debian, FileStat key_debian,
         CommUpload ''/etc/apt/trusted.gpg.d/debian.gpg'' (FileReader key_debian) (Some (FileInfo False)),
         FileClose key_debian,
         RunWithUi dns_command,
         CommUpload ''/etc/apt/sources.list.d/packer.list''
           (StringReader (''deb http://deb.debian.org/debian bullseye main'' @ [CHR 0x0A])) None,
         RunWithUi ''/usr/bin/apt-get update'',
         UiError ''apt-get update failed''])
   \<and> fst (stage_cache (host_remote_fails host_ok (install_command cfg_bullseye)) cfg_bullseye) = Inr ()
   \<and> fst (stage_trust (host_remote_fails host_ok (install_command cfg_bullseye)) cfg_bullseye) = Inr ()
   \<and> fst (stage_dns (host_remote_fails host_ok (install_command cfg_bullseye)) cfg_bullseye) = Inr ()
   \<and> fst (stage_list (host_remote_fails host_ok (install_command cfg_bullseye)) cfg_bullseye) = Inr ()
   \<and> fst (stage_index (host_remote_fails host_ok (install_command cfg_bullseye)) cfg_bullseye) = Inr ()
   \<and> fst (stage_install (host_remote_fails host_ok (install_command cfg_bullseye)) cfg_bullseye) = Inl (ErrOther ''exit status 100'')
   \<and> Provision (host_remote_fails host_ok (install_command cfg_bullseye)) cfg_bullseye =
       (Inl (ErrOther ''exit status 100''),
        [UiSay ''Provisioning with APT...'', OsStat ''/var/cache/apt/archives'',
         CommUploadDir ''/var/cache/apt/archives'' ''/var/cache/apt/archives'' [],
         OsOpen key_debian, FileStat key_debian,
         CommUpload ''/etc/apt/trusted.gpg.d/debian.gpg'' (FileReader key_debian) (Some (FileInfo False)),
         FileClose key_debian,
         RunWithUi dns_command,
         CommUpload ''/etc/apt/sources.list.d/packer.list''
           (StringReader (''deb http://deb.debian.org/debian bullseye main'' @ [CHR 0x0A])) None,
         RunWithUi ''/usr/bin/apt-get update'',
         RunWithUi ''DEBIAN_FRONTEND=noninteractive /usr/bin/apt-get install -y --no-install-recommends curl git'',
         UiError ''apt-get install failed.''])
   \<and> fst (stage_cache host_download_fails cfg_bullseye) = Inr ()
   \<and> fst (stage_trust host_download_fails cfg_bullseye) = Inr ()
   \<and> fst (stage_dns host_download_fails cfg_bullseye) = Inr ()
   \<and> fst (stage_list host_download_fails cfg_bullseye) = Inr ()
   \<and> fst (stage_index host_download_fails cfg_bullseye) = Inr ()
   \<and> fst (stage_install host_download_fails cfg_bullseye) = Inr ()
   \<and> fst (stage_updateCache host_download_fails cfg_bullseye) = Inl (ErrOther ''download failed'')
   \<and> Provision host_download_fails cfg_bullseye =
       (Inl (ErrOther ''download failed''),
        [UiSay ''Provisioning with APT...'', OsStat ''/var/cache/apt/archives'',
         CommUploadDir ''/var/cache/apt/archives'' ''/var/cache/apt/archives'' [],
         OsOpen key_debian, FileStat key_debian,
         CommUpload ''/etc/apt/trusted.gpg.d/debian.gpg'' (FileReader key_debian) (Some (FileInfo False)),
         FileClose key_debian,
         RunWithUi dns_command,
         CommUpload ''/etc/apt/sources.list.d/packer.list''
           (StringReader (''deb http://deb.debian.org/debian bullseye main'' @ [CHR 0x0A])) None,
         RunWithUi ''/usr/bin/apt-get update'',
         RunWithUi ''DEBIAN_FRONTEND=noninteractive /usr/bin/apt-get install -y --no-install-recommends curl git'',
         OsStat ''/var/cache/apt/archives'', IoTempDir ''/tmp'' ''archives-'',
         CommDownloadDir ''/var/cache/apt/archives'' ''/tmp/archives-1234'' [],
         UiError ''APT cache update: failed to download archives to /tmp/archives-1234'',
         OsRemoveAll ''/tmp/archives-1234''])"
proof -
  have c: "CacheDir cfg_bullseye = ''/var/cache/apt/archives''"
    by (simp add: cfg_bullseye_def)
  have s: "Sources cfg_bullseye \<noteq> []"
    by (simp add: cfg_bullseye_def)
  have w1: "fst (stage_cache host_uploaddir_fails cfg_bullseye) = Inl (ErrOther ''upload failed'')"
    by (simp add: stage_defs step_defs host_defs dns_command_def)
  have h1: "fst (stage_cache host_uploaddir_fails cfg_bullseye) = Inl (ErrOther ''upload failed'')"
    using w1 s by (simp only: simp_thms)
  have t1: "snd (stage_cache host_uploaddir_fails cfg_bullseye) =
        [UiSay ''Provisioning with APT...'', OsStat ''/var/cache/apt/archives'',
         CommUploadDir ''/var/cache/apt/archives'' ''/var/cache/apt/archives'' []]"
    by (simp add: stage_defs step_defs host_defs dns_command_def)
  have p1: "Provision host_uploaddir_fails cfg_bullseye =
       (Inl (ErrOther ''upload failed''),
        [UiSay ''Provisioning with APT...'', OsStat ''/var/cache/apt/archives'',
         CommUploadDir ''/var/cache/apt/archives'' ''/var/cache/apt/archives'' [],
         UiError ''Failed to upload APT cache from /var/cache/apt/archives''])"
    using Provision_short_circuit [of host_uploaddir_fails cfg_bullseye "ErrOther ''upload failed''",
        THEN conjunct1, rule_format, OF h1]
    by (simp add: t1 c)
  have w2: "fst (stage_cache host_key_denied cfg_bullseye) = Inr ()
      \<and> fst (stage_trust host_key_denied cfg_bullseye) = Inl (ErrOther ''permission denied'')"
    by (simp add: stage_defs step_defs host_defs dns_command_def)
  have h2: "fst (stage_cache host_key_denied cfg_bullseye) = Inr ()
      \<and> fst (stage_trust host_key_denied cfg_bullseye) = Inl (ErrOther ''permission denied'')"
    using w2 s by (simp only: simp_thms)
  have t2: "snd (stage_trust host_key_denied cfg_bullseye) =
        [UiSay ''Provisioning with APT...'', OsStat ''/var/cache/apt/archives'',
         CommUploadDir ''/var/cache/apt/archives'' ''/var/cache/apt/archives'' [],
         OsOpen key_debian]"
    by (simp add: stage_defs step_defs host_defs dns_command_def)
  have p2: "Provision host_key_denied cfg_bullseye =
       (Inl (ErrOther ''permission denied''),
        [UiSay ''Provisioning with APT...'', OsStat ''/var/cache/apt/archives'',
         CommUploadDir ''/var/cache/apt/archives'' ''/var/cache/apt/archives'' [],
         OsOpen key_debian])"
    using Provision_short_circuit [of host_key_denied cfg_bullseye "ErrOther ''permission denied''",
        THEN conjunct2, THEN conjunct1, rule_format, OF h2]
    by (simp add: t2 c)
  have w3: "fst (stage_cache (host_remote_fails host_ok dns_command) cfg_bullseye) = Inr ()
      \<and> fst (stage_trust (host_remote_fails host_ok dns_command) cfg_bullseye) = Inr ()
      \<and> fst (stage_dns (host_remote_fails host_ok dns_command) cfg_bullseye) = Inl (ErrOther ''exit status 100'')"
    by (simp add: stage_defs step_defs host_defs dns_command_def)
  have h3: "fst (stage_cache (host_remote_fails host_ok dns_command) cfg_bullseye) = Inr ()
      \<and> fst (stage_trust (host_remote_fails host_ok dns_command) cfg_bullseye) = Inr ()
      \<and> fst (stage_dns (host_remote_fails host_ok dns_command) cfg_bullseye) = Inl (ErrOther ''exit status 100'')"
    using w3 s by (simp only: simp_thms)
  have t3: "snd (stage_dns (host_remote_fails host_ok dns_command) cfg_bullseye) =
        [UiSay ''Provisioning with APT...'', OsStat ''/var/cache/apt/archives'',
         CommUploadDir ''/var/cache/apt/archives'' ''/var/cache/apt/archives'' [],
         OsOpen key_debian, FileStat key_debian,
         CommUpload ''/etc/apt/trusted.gpg.d/debian.gpg'' (FileReader key_debian) (Some (FileInfo False)),
         FileClose key_debian,
         RunWithUi dns_command]"
    by (simp add: stage_defs step_defs host_defs dns_command_def)
  have p3: "Provision (host_remote_fails host_ok dns_command) cfg_bullseye =
       (Inl (ErrOther ''exit status 100''),
        [UiSay ''Provisioning with APT...'', OsStat ''/var/cache/apt/archives'',
         CommUploadDir ''/var/cache/apt/archives'' ''/var/cache/apt/archives'' [],
         OsOpen key_debian, FileStat key_debian,
         CommUpload ''/etc/apt/trusted.gpg.d/debian.gpg'' (FileReader key_debian) (Some (FileInfo False)),
         FileClose key_debian,
         RunWithUi dns_command,
         UiError ''Failed waiting for domain name resolution''])"
    using Provision_short_circuit [of "host_remote_fails host_ok dns_command" cfg_bullseye "ErrOther ''exit status 100''",
        THEN conjunct2, THEN conjunct2, THEN conjunct1, rule_format, OF h3]
    by (simp add: t3 c)
  have w4: "fst (stage_cache (host_upload_fails host_ok ''/etc/apt/sources.list.d/packer.list'') cfg_bullseye) = Inr ()
      \<and> fst (stage_trust (host_upload_fails host_ok ''/etc/apt/sources.list.d/packer.list'') cfg_bullseye) = Inr ()
      \<and> fst (stage_dns (host_upload_fails host_ok ''/etc/apt/sources.list.d/packer.list'') cfg_bullseye) = Inr ()
      \<and> fst (stage_list (host_upload_fails host_ok ''/etc/apt/sources.list.d/packer.list'') cfg_bullseye) = Inl (ErrOther ''upload failed'')"
    by (simp add: stage_defs step_defs host_defs dns_command_def)
  have h4: "fst (stage_cache (host_upload_fails host_ok ''/etc/apt/sources.list.d/packer.list'') cfg_bullseye) = Inr ()
      \<and> fst (stage_trust (host_upload_fails host_ok ''/etc/apt/sources.list.d/packer.list'') cfg_bullseye) = Inr ()
      \<and> fst (stage_dns (host_upload_fails host_ok ''/etc/apt/sources.list.d/packer.list'') cfg_bullseye) = Inr ()
      \<and> Sources cfg_bullseye \<noteq> []
      \<and> fst (stage_list (host_upload_fails host_ok ''/etc/apt/sources.list.d/packer.list'') cfg_bullseye) = Inl (ErrOther ''upload failed'')"
    using w4 s by (simp only: simp_thms)
  have t4: "snd (stage_list (host_upload_fails host_ok ''/etc/apt/sources.list.d/packer.list'') cfg_bullseye) =
        [UiSay ''Provisioning with APT...'', OsStat ''/var/cache/apt/archives'',
         CommUploadDir ''/var/cache/apt/archives'' ''/var/cache/apt/archives'' [],
         OsOpen key_debian, FileStat key_debian,
         CommUpload ''/etc/apt/trusted.gpg.d/debian.gpg'' (FileReader key_debian) (Some (FileInfo False)),
         FileClose key_debian,
         RunWithUi dns_command,
         CommUpload ''/etc/apt/sources.list.d/packer.list''
           (StringReader (''deb http://deb.debian.org/debian bullseye main'' @ [CHR 0x0A])) None]"
    by (simp add: stage_defs step_defs host_defs dns_command_def)
  have p4: "Provision (host_upload_fails host_ok ''/etc/apt/sources.list.d/packer.list'') cfg_bullseye =
       (Inl (ErrOther ''upload failed''),
        [UiSay ''Provisioning with APT...'', OsStat ''/var/cache/apt/archives'',
         CommUploadDir ''/var/cache/apt/archives'' ''/var/cache/apt/archives'' [],
         OsOpen key_debian, FileStat key_debian,
         CommUpload ''/etc/apt/trusted.gpg.d/debian.gpg'' (FileReader key_debian) (Some (FileInfo False)),
         FileClose key_debian,
         RunWithUi dns_command,
         CommUpload ''/etc/apt/sources.list.d/packer.list''
           (StringReader (''deb http://deb.debian.org/debian bullseye main'' @ [CHR 0x0A])) None,
         UiError ''Failed to upload APT package list''])"
    using Provision_short_circuit [of "host_upload_fails host_ok ''/etc/apt/sources.list.d/packer.list''" cfg_bullseye "ErrOther ''upload failed''",
        THEN conjunct2, THEN conjunct2, THEN conjunct2, THEN conjunct1, rule_format, OF h4]
    by (simp add: t4 c)
  have w5: "fst (stage_cache (host_remote_fails host_ok ''/usr/bin/apt-get update'') cfg_bullseye) = Inr ()
      \<and> fst (stage_trust (host_remote_fails host_ok ''/usr/bin/apt-get update'') cfg_bullseye) = Inr ()
      \<and> fst (stage_dns (host_remote_fails host_ok ''/usr/bin/apt-get update'') cfg_bullseye) = Inr ()
      \<and> fst (stage_list (host_remote_fails host_ok ''/usr/bin/apt-get update'') cfg_bullseye) = Inr ()
      \<and> fst (stage_index (host_remote_fails host_ok ''/usr/bin/apt-get update'') cfg_bullseye) = Inl (ErrOther ''exit status 100'')"
    by (simp add: stage_defs step_defs host_defs dns_command_def)
  have h5: "fst (stage_cache (host_remote_fails host_ok ''/usr/bin/apt-get update'') cfg_bullseye) = Inr ()
      \<and> fst (stage_trust (host_remote_fails host_ok ''/usr/bin/apt-get update'') cfg_bullseye) = Inr ()
      \<and> fst (stage_dns (host_remote_fails host_ok ''/usr/bin/apt-get update'') cfg_bullseye) = Inr ()
      \<and> Sources cfg_bullseye \<noteq> []
      \<and> fst (stage_list (host_remote_fails host_ok ''/usr/bin/apt-get update'') cfg_bullseye) = Inr ()
      \<and> fst (stage_index (host_remote_fails host_ok ''/usr/bin/apt-get update'') cfg_bullseye) = Inl (ErrOther ''exit status 100'')"
    using w5 s by (simp only: simp_thms)
  have t5: "snd (stage_index (host_remote_fails host_ok ''/usr/bin/apt-get update'') cfg_bullseye) =
        [UiSay ''Provisioning with APT...'', OsStat ''/var/cache/apt/archives'',
         CommUploadDir ''/var/cache/apt/archives'' ''/var/cache/apt/archives'' [],
         OsOpen key_debian, FileStat key_debian,
         CommUpload ''/etc/apt/trusted.gpg.d/debian.gpg'' (FileReader key_debian) (Some (FileInfo False)),
         FileClose key_debian,
         RunWithUi dns_command,
         CommUpload ''/etc/apt/sources.list.d/packer.list''
           (StringReader (''deb http://deb.debian.org/debian bullseye main'' @ [CHR 0x0A])) None,
         RunWithUi ''/usr/bin/apt-get update'']"
    by (simp add: stage_defs step_defs host_defs dns_command_def)
  have p5: "Provision (host_remote_fails host_ok ''/usr/bin/apt-get update'') cfg_bullseye =
       (Inl (ErrOther ''exit status 100''),
        [UiSay ''Provisioning with APT...'', OsStat ''/var/cache/apt/archives'',
         CommUploadDir ''/var/cache/apt/archives'' ''/var/cache/apt/archives'' [],
         OsOpen key_debian, FileStat key_debian,
         CommUpload ''/etc/apt/trusted.gpg.d/debian.gpg'' (FileReader key_debian) (Some (FileInfo False)),
         FileClose key_debian,
         RunWithUi dns_command,
         CommUpload ''/etc/apt/sources.list.d/packer.list''
           (StringReader (''deb http://deb.debian.org/debian bullseye main'' @ [CHR 0x0A])) None,
         RunWithUi ''/usr/bin/apt-get update'',
         UiError ''apt-get update failed''])"
    using Provision_short_circuit [of "host_remote_fails host_ok ''/usr/bin/apt-get update''" cfg_bullseye "ErrOther ''exit status 100''",
        THEN conjunct2, THEN conjunct2, THEN conjunct2, THEN conjunct2, THEN conjunct1, rule_format, OF h5]
    by (simp add: t5 c)
  have w6: "fst (stage_cache (host_remote_fails host_ok (install_command cfg_bullseye)) cfg_bullseye) = Inr ()
      \<and> fst (stage_trust (host_remote_fails host_ok (install_command cfg_bullseye)) cfg_bullseye) = Inr ()
      \<and> fst (stage_dns (host_remote_fails host_ok (install_command cfg_bullseye)) cfg_bullseye) = Inr ()
      \<and> fst (stage_list (host_remote_fails host_ok (install_command cfg_bullseye)) cfg_bullseye) = Inr ()
      \<and> fst (stage_index (host_remote_fails host_ok (install_command cfg_bullseye)) cfg_bullseye) = Inr ()
      \<and> fst (stage_install (host_remote_fails host_ok (install_command cfg_bullseye)) cfg_bullseye) = Inl (ErrOther ''exit status 100'')"
    by (simp add: stage_defs step_defs host_defs dns_command_def)
  have h6: "fst (stage_cache (host_remote_fails host_ok (install_command cfg_bullseye)) cfg_bullseye) = Inr ()
      \<and> fst (stage_trust (host_remote_fails host_ok (install_command cfg_bullseye)) cfg_bullseye) = Inr ()
      \<and> fst (stage_dns (host_remote_fails host_ok (install_command cfg_bullseye)) cfg_bullseye) = Inr ()
      \<and> (Sources cfg_bullseye = [] \<or> fst (stage_list (host_remote_fails host_ok (install_command cfg_bullseye)) cfg_bullseye) = Inr () \<and> fst (stage_index (host_remote_fails host_ok (install_command cfg_bullseye)) cfg_bullseye) = Inr ())
      \<and> fst (stage_install (host_remote_fails host_ok (install_command cfg_bullseye)) cfg_bullseye) = Inl (ErrOther ''exit status 100'')"
    using w6 s by (simp only: simp_thms)
  have t6: "snd (stage_install (host_remote_fails host_ok (install_command cfg_bullseye)) cfg_bullseye) =
        [UiSay ''Provisioning with APT...'', OsStat ''/var/cache/apt/archives'',
         CommUploadDir ''/var/cache/apt/archives'' ''/var/cache/apt/archives'' [],
         OsOpen key_debian, FileStat key_debian,
         CommUpload ''/etc/apt/trusted.gpg.d/debian.gpg'' (FileReader key_debian) (Some (FileInfo False)),
         FileClose key_debian,
         RunWithUi dns_command,
         CommUpload ''/etc/apt/sources.list.d/packer.list''
           (StringReader (''deb http://deb.debian.org/debian bullseye main'' @ [CHR 0x0A])) None,
         RunWithUi ''/usr/bin/apt-get update'',
         RunWithUi ''DEBIAN_FRONTEND=noninteractive /usr/bin/apt-get install -y --no-install-recommends curl git'']"
    by (simp add: stage_defs step_defs host_defs dns_command_def)
  have p6: "Provision (host_remote_fails host_ok (install_command cfg_bullseye)) cfg_bullseye =
       (Inl (ErrOther ''exit status 100''),
        [UiSay ''Provisioning with APT...'', OsStat ''/var/cache/apt/archives'',
         CommUploadDir ''/var/cache/apt/archives'' ''/var/cache/apt/archives'' [],
         OsOpen key_debian, FileStat key_debian,
         CommUpload ''/etc/apt/trusted.gpg.d/debian.gpg'' (FileReader key_debian) (Some (FileInfo False)),
         FileClose key_debian,
         RunWithUi dns_command,
         CommUpload ''/etc/apt/sources.list.d/packer.list''
           (StringReader (''deb http://deb.debian.org/debian bullseye main'' @ [CHR 0x0A])) None,
         RunWithUi ''/usr/bin/apt-get update'',
         RunWithUi ''DEBIAN_FRONTEND=noninteractive /usr/bin/apt-get install -y --no-install-recommends curl git'',
         UiError ''apt-get install failed.''])"
    using Provision_short_circuit [of "host_remote_fails host_ok (install_command cfg_bullseye)" cfg_bullseye "ErrOther ''exit status 100''",
        THEN conjunct2, THEN conjunct2, THEN conjunct2, THEN conjunct2, THEN conjunct2, THEN conjunct1, rule_format, OF h6]
    by (simp add: t6 c)
  have w7: "fst (stage_cache host_download_fails cfg_bullseye) = Inr ()
      \<and> fst (stage_trust host_download_fails cfg_bullseye) = Inr ()
      \<and> fst (stage_dns host_download_fails cfg_bullseye) = Inr ()
      \<and> fst (stage_list host_download_fails cfg_bullseye) = Inr ()
      \<and> fst (stage_index host_download_fails cfg_bullseye) = Inr ()
      \<and> fst (stage_install host_download_fails cfg_bullseye) = Inr ()
      \<and> fst (stage_updateCache host_download_fails cfg_bullseye) = Inl (ErrOther ''download failed'')"
    by (simp add: stage_defs step_defs host_defs dns_command_def)
  have h7: "fst (stage_cache host_download_fails cfg_bullseye) = Inr ()
      \<and> fst (stage_trust host_download_fails cfg_bullseye) = Inr ()
      \<and> fst (stage_dns host_download_fails cfg_bullseye) = Inr ()
      \<and> (Sources cfg_bullseye = [] \<or> fst (stage_list host_download_fails cfg_bullseye) = Inr () \<and> fst (stage_index host_download_fails cfg_bullseye) = Inr ())
      \<and> fst (stage_install host_download_fails cfg_bullseye) = Inr ()
      \<and> fst (stage_updateCache host_download_fails cfg_bullseye) = Inl (ErrOther ''download failed'')"
    using w7 s by (simp only: simp_thms)
  have t7: "snd (stage_updateCache host_download_fails cfg_bullseye) =
        [UiSay ''Provisioning with APT...'', OsStat ''/var/cache/apt/archives'',
         CommUploadDir ''/var/cache/apt/archives'' ''/var/cache/apt/archives'' [],
         OsOpen key_debian, FileStat key_debian,
         CommUpload ''/etc/apt/trusted.gpg.d/debian.gpg'' (FileReader key_debian) (Some (FileInfo False)),
         FileClose key_debian,
         RunWithUi dns_command,
         CommUpload ''/etc/apt/sources.list.d/packer.list''
           (StringReader (''deb http://deb.debian.org/debian bullseye main'' @ [CHR 0x0A])) None,
         RunWithUi ''/usr/bin/apt-get update'',
         RunWithUi ''DEBIAN_FRONTEND=noninteractive /usr/bin/apt-get install -y --no-install-recommends curl git'',
         OsStat ''/var/cache/apt/archives'', IoTempDir ''/tmp'' ''archives-'',
         CommDownloadDir ''/var/cache/apt/archives'' ''/tmp/archives-1234'' [],
         UiError ''APT cache update: failed to download archives to /tmp/archives-1234'',
         OsRemoveAll ''/tmp/archives-1234'']"
    by (simp add: stage_defs step_defs host_defs dns_command_def)
  have p7: "Provision host_download_fails cfg_bullseye =
       (Inl (ErrOther ''download failed''),
        [UiSay ''Provisioning with APT...'', OsStat ''/var/cache/apt/archives'',
         CommUploadDir ''/var/cache/apt/archives'' ''/var/cache/apt/archives'' [],
         OsOpen key_debian, FileStat key_debian,
         CommUpload ''/etc/apt/trusted.gpg.d/debian.gpg'' (FileReader key_debian) (Some (FileInfo False)),
         FileClose key_debian,
         RunWithUi dns_command,
         CommUpload ''/etc/apt/sources.list.d/packer.list''
           (StringReader (''deb http://deb.debian.org/debian bullseye main'' @ [CHR 0x0A])) None,
         RunWithUi ''/usr/bin/apt-get update'',
         RunWithUi ''DEBIAN_FRONTEND=noninteractive /usr/bin/apt-get install -y --no-install-recommends curl git'',
         OsStat ''/var/cache/apt/archives'', IoTempDir ''/tmp'' ''archives-'',
         CommDownloadDir ''/var/cache/apt/archives'' ''/tmp/archives-1234'' [],
         UiError ''APT cache update: failed to download archives to /tmp/archives-1234'',
         OsRemoveAll ''/tmp/archives-1234''])"
    using Provision_short_circuit [of host_download_fails cfg_bullseye "ErrOther ''download failed''",
        THEN conjunct2, THEN conjunct2, THEN conjunct2, THEN conjunct2, THEN conjunct2, THEN conjunct2, rule_format, OF h7]
    by (simp add: t7 c)
  show ?thesis
    by (intro conjI)
       (use w1 p1 w2 p2 w3 p3 w4 p4 w5 p5 w6 p6 w7 p7 in \<open>simp_all only: simp_thms\<close>)
qed

section \<open>The calls each step makes\<close>

text \<open>
  The cache upload, the key upload and the cache update run no remote command and never
  upload the source list.
\<close>

lemma uploadHostPackageCache_calls:
  "\<exists>t. snd (uploadHostPackageCache env cfg l) = l @ t \<and> list_all is_local_call t"
  by (auto simp add: uploadHostPackageCache_def Let_def split: sum.split)

lemma uploadHostPackageTrust_loop_calls:
  "\<exists>t. snd (uploadHostPackageTrust_loop env keys opened l) = l @ t \<and> list_all is_local_call t"
proof (induction env keys opened l rule: uploadHostPackageTrust_loop.induct)
  case (1 env opened l)
  show ?case by (auto simp: list_all_iff)
next
  case (2 env key keys opened l)
  show ?case
  proof (cases "os_Open env l key")
    case (Inl err)
    show ?thesis
    proof (cases "os_IsNotExist err")
      case True
      with Inl 2(1) show ?thesis by (auto simp: list_all_iff)
    next
      case False
      with Inl show ?thesis by (auto simp: list_all_iff)
    qed
  next
    case (Inr f)
    show ?thesis
    proof (cases "file_Stat env (l @ [OsOpen key]) key")
      case (Inl err)
      show ?thesis
      proof (cases "os_IsNotExist err")
        case True
        with Inl Inr 2(2) show ?thesis by (auto simp: list_all_iff)
      next
        case False
        with Inl Inr show ?thesis by (auto simp: list_all_iff)
      qed
    next
      case st: (Inr fi)
      show ?thesis
      proof (cases "comm_Upload env (l @ [OsOpen key, FileStat key])
                       (''/etc/apt/trusted.gpg.d/'' @ filepath_Base key) (FileReader key) (Some fi)")
        case (Inl err)
        with st Inr show ?thesis by (auto simp: list_all_iff)
      next
        case up: (Inr u)
        with st Inr 2(3) show ?thesis by (auto simp: list_all_iff)
      qed
    qed
  qed
qed


lemma uploadHostPackageTrust_calls:
  "\<exists>t. snd (uploadHostPackageTrust env cfg l) = l @ t \<and> list_all is_local_call t"
  by (simp add: uploadHostPackageTrust_def uploadHostPackageTrust_loop_calls)

lemma updateCache_calls:
  "\<exists>t. snd (updateCache env cfg l) = l @ t \<and> list_all is_local_call t"
  by (auto simp add: updateCache_def updateCache_deferred_def Let_def split: sum.split prod.split)

lemma is_local_call_facts:
  "is_local_call e \<Longrightarrow> \<not> is_sources_upload e"
  "is_local_call e \<Longrightarrow> \<not> is_index_refresh e"
  "is_local_call e \<Longrightarrow> e \<noteq> RunWithUi c"
  by (cases e; simp add: is_index_refresh_def)+

lemma local_calls_facts:
  assumes "list_all is_local_call t"
  shows "\<not> list_ex is_sources_upload t" and "\<not> list_ex is_index_refresh t"
    and "RunWithUi c \<notin> set t"
  using assms is_local_call_facts by (auto simp: list_all_iff list_ex_iff)

lemma command_facts:
  "\<not> is_sources_upload (RunWithUi c)"
  "\<not> is_index_refresh (RunWithUi dns_command)"
  "\<not> is_index_refresh (RunWithUi (install_command cfg))"
  "\<not> is_index_refresh (RunWithUi ''/usr/bin/apt-get clean'')"
  "\<not> is_index_refresh (UiError m)" "\<not> is_sources_upload (UiError m)"
  "\<not> is_index_refresh (UiSay m)" "\<not> is_sources_upload (UiSay m)"
  "dns_command \<noteq> install_command cfg"
  "install_command cfg \<noteq> ''/usr/bin/apt-get update''"
  by (simp_all add: is_index_refresh_def dns_command_def install_command_def)

text \<open>The traces of the stages, each in terms of the one before.\<close>

lemma stage_cache_trace:
  "\<exists>t. snd (stage_cache env cfg) = UiSay ''Provisioning with APT...'' # t \<and> list_all is_local_call t"
  using uploadHostPackageCache_calls [of env cfg "[UiSay ''Provisioning with APT...'']"]
  by (simp add: stage_cache_def)

lemma stage_trust_trace:
  "\<exists>t. snd (stage_trust env cfg) = snd (stage_cache env cfg) @ t \<and> list_all is_local_call t"
  by (simp add: stage_trust_def uploadHostPackageTrust_calls)

lemma stage_dns_trace:
  "snd (stage_dns env cfg) = snd (stage_trust env cfg) @ [RunWithUi dns_command]"
  by (simp add: stage_dns_def testRemoteDNS_trace)

lemma stage_list_trace:
  "snd (stage_list env cfg) =
     snd (stage_dns env cfg) @
       [CommUpload ''/etc/apt/sources.list.d/packer.list''
          (StringReader (strings_Join (Sources cfg) [CHR 0x0A] @ [CHR 0x0A])) None]"
  by (simp add: stage_list_def uploadPackageList_trace)

lemma stage_index_trace:
  "snd (stage_index env cfg) = snd (stage_list env cfg) @ [RunWithUi ''/usr/bin/apt-get update'']"
  by (simp add: stage_index_def updateRemotePackageIndex_trace)

lemma stage_install_trace:
  "snd (stage_install env cfg) =
     (if Sources cfg \<noteq> [] then snd (stage_index env cfg) else snd (stage_dns env cfg))
       @ [RunWithUi (install_command cfg)]"
  by (simp add: stage_install_def installRemotePackages_trace)

lemma stage_updateCache_trace:
  "\<exists>t. snd (stage_updateCache env cfg) = snd (stage_install env cfg) @ t \<and> list_all is_local_call t"
  by (simp add: stage_updateCache_def updateCache_calls)

lemma stage_clean_trace:
  "snd (stage_clean env cfg) = snd (stage_updateCache env cfg) @ [RunWithUi ''/usr/bin/apt-get clean'']"
  by (simp add: stage_clean_def cleanRemotePackages_trace)

text \<open>The trace up to the DNS wait holds no source list upload, no index refresh and no installation.\<close>

lemma stage_dns_quiet:
  "\<not> list_ex is_sources_upload (snd (stage_dns env cfg))"
  "\<not> list_ex is_index_refresh (snd (stage_dns env cfg))"
  "RunWithUi (install_command cfg) \<notin> set (snd (stage_dns env cfg))"
proof -
  obtain t1 where t1: "snd (stage_cache env cfg) = UiSay ''Provisioning with APT...'' # t1"
      "list_all is_local_call t1"
    using stage_cache_trace by blast
  obtain t2 where t2: "snd (stage_trust env cfg) = snd (stage_cache env cfg) @ t2"
      "list_all is_local_call t2"
    using stage_trust_trace by blast
  have tr: "snd (stage_dns env cfg) = UiSay ''Provisioning with APT...'' # t1 @ t2 @ [RunWithUi dns_command]"
    by (simp add: stage_dns_trace t1 t2)
  show "\<not> list_ex is_sources_upload (snd (stage_dns env cfg))"
    using local_calls_facts(1) [OF t1(2)] local_calls_facts(1) [OF t2(2)]
    by (auto simp add: tr list_ex_iff)
  show "\<not> list_ex is_index_refresh (snd (stage_dns env cfg))"
    using local_calls_facts(2) [OF t1(2)] local_calls_facts(2) [OF t2(2)] command_facts(2)
    by (auto simp add: tr list_ex_iff command_facts)
  show "RunWithUi (install_command cfg) \<notin> set (snd (stage_dns env cfg))"
    using local_calls_facts(3) [OF t1(2), of "install_command cfg"]
      local_calls_facts(3) [OF t2(2), of "install_command cfg"] command_facts(9) [of cfg]
    by (auto simp add: tr)
qed


lemma stage_prefixes:
  "set (snd (stage_cache env cfg)) \<subseteq> set (snd (stage_dns env cfg))"
  "set (snd (stage_trust env cfg)) \<subseteq> set (snd (stage_dns env cfg))"
  using stage_trust_trace [of env cfg] by (auto simp add: stage_dns_trace)

lemma Provision_install_trace:
  "\<exists>t. snd (Provision_install env cfg l) = l @ RunWithUi (install_command cfg) # t
       \<and> \<not> list_ex is_sources_upload t \<and> \<not> list_ex is_index_refresh t"
proof -
  let ?l1 = "l @ [RunWithUi (install_command cfg)]"
  obtain r1 where s1: "installRemotePackages env cfg l = (r1, ?l1)"
    using installRemotePackages_trace [of env cfg l] by (cases "installRemotePackages env cfg l") simp
  obtain r2 t2 where s2: "updateCache env cfg ?l1 = (r2, ?l1 @ t2)" and q2: "list_all is_local_call t2"
    using updateCache_calls [of env cfg ?l1] by (cases "updateCache env cfg ?l1") auto
  obtain r3 where s3: "cleanRemotePackages env (?l1 @ t2) = (r3, ?l1 @ t2 @ [RunWithUi ''/usr/bin/apt-get clean''])"
    using cleanRemotePackages_trace [of env "?l1 @ t2"] by (cases "cleanRemotePackages env (?l1 @ t2)") simp
  show ?thesis
    unfolding Provision_install_def s1
    using s2 s3 local_calls_facts(1) [OF q2] local_calls_facts(2) [OF q2]
    by (auto simp add: list_ex_iff is_index_refresh_def split: sum.split)
qed

section \<open>The conditional steps\<close>

lemma no_sources_no_calls:
  assumes "Sources cfg = []"
  shows "\<not> list_ex is_sources_upload (snd (Provision env cfg))
       \<and> \<not> list_ex is_index_refresh (snd (Provision env cfg))"
proof -
  note q = stage_dns_quiet(1,2) [of env cfg, unfolded list_ex_iff] stage_prefixes [of env cfg]
  show ?thesis
  proof (cases "fst (stage_cache env cfg)")
    case (Inl e)
    from fails_at_cache [OF Inl] q show ?thesis
      by (auto simp add: list_ex_iff is_index_refresh_def)
  next
    case c: (Inr u)
    show ?thesis
    proof (cases "fst (stage_trust env cfg)")
      case (Inl e)
      from fails_at_trust [OF _ Inl] c q show ?thesis
        by (auto simp add: list_ex_iff)
    next
      case t: (Inr u)
      show ?thesis
      proof (cases "fst (stage_dns env cfg)")
        case (Inl e)
        from fails_at_dns [OF _ _ Inl] c t q show ?thesis
          by (auto simp add: list_ex_iff is_index_refresh_def)
      next
        case d: (Inr u)
        have "Provision env cfg = Provision_install env cfg (snd (stage_dns env cfg))"
          using reaches_install [of env cfg] c t d assms by simp
        with Provision_install_trace [of env cfg "snd (stage_dns env cfg)"] q show ?thesis
          by (auto simp add: list_ex_iff command_facts)
      qed
    qed
  qed
qed

lemma sources_calls_follow_dns:
  assumes "Sources cfg \<noteq> []"
    and "fst (stage_cache env cfg) = Inr ()" and "fst (stage_trust env cfg) = Inr ()"
    and "fst (stage_dns env cfg) = Inr ()"
  shows "\<exists>rest. snd (Provision env cfg) =
           snd (stage_dns env cfg) @
             CommUpload ''/etc/apt/sources.list.d/packer.list''
               (StringReader (strings_Join (Sources cfg) [CHR 0x0A] @ [CHR 0x0A])) None # rest
           \<and> (fst (stage_list env cfg) = Inr () \<longrightarrow>
                (\<exists>rest'. rest = RunWithUi ''/usr/bin/apt-get update'' # rest'))"
proof (cases "fst (stage_list env cfg)")
  case (Inl e)
  from fails_at_list [OF assms(2,3,4,1) Inl] show ?thesis
    by (simp add: stage_list_trace Inl)
next
  case li: (Inr u)
  show ?thesis
  proof (cases "fst (stage_index env cfg)")
    case (Inl e)
    from fails_at_index [OF assms(2,3,4,1) _ Inl] li show ?thesis
      by (simp add: stage_index_trace stage_list_trace)
  next
    case ix: (Inr u)
    have "Provision env cfg = Provision_install env cfg (snd (stage_index env cfg))"
      using reaches_install [of env cfg] assms li ix by simp
    with Provision_install_extends [of env cfg "snd (stage_index env cfg)"] show ?thesis
      by (auto simp add: stage_index_trace stage_list_trace)
  qed
qed

lemma install_after_sources_calls:
  assumes "Sources cfg \<noteq> []"
    and "RunWithUi (install_command cfg) \<in> set (snd (Provision env cfg))"
  shows "\<exists>rest. snd (Provision env cfg) =
           snd (stage_dns env cfg) @
             [CommUpload ''/etc/apt/sources.list.d/packer.list''
                (StringReader (strings_Join (Sources cfg) [CHR 0x0A] @ [CHR 0x0A])) None,
              RunWithUi ''/usr/bin/apt-get update'',
              RunWithUi (install_command cfg)] @ rest"
proof -
  note q = stage_dns_quiet(3) [where env = env and cfg = cfg] stage_prefixes [of env cfg]
  show ?thesis
  proof (cases "fst (stage_cache env cfg)")
    case (Inl e)
    from fails_at_cache [OF Inl] q assms(2) show ?thesis by auto
  next
    case c: (Inr u)
    show ?thesis
    proof (cases "fst (stage_trust env cfg)")
      case (Inl e)
      from fails_at_trust [OF _ Inl] c q assms(2) show ?thesis by auto
    next
      case t: (Inr u)
      show ?thesis
      proof (cases "fst (stage_dns env cfg)")
        case (Inl e)
        from fails_at_dns [OF _ _ Inl] c t q assms(2) show ?thesis by auto
      next
        case d: (Inr u)
        show ?thesis
        proof (cases "fst (stage_list env cfg)")
          case (Inl e)
          from fails_at_list [OF _ _ _ assms(1) Inl] c t d q assms(2) show ?thesis
            by (auto simp add: stage_list_trace)
        next
          case li: (Inr u)
          show ?thesis
          proof (cases "fst (stage_index env cfg)")
            case (Inl e)
            from fails_at_index [OF _ _ _ assms(1) _ Inl] c t d li q assms(2)
              command_facts(10) [of cfg] show ?thesis
              by (auto simp add: stage_index_trace stage_list_trace)
          next
            case ix: (Inr u)
            have "Provision env cfg = Provision_install env cfg (snd (stage_index env cfg))"
              using reaches_install [of env cfg] assms(1) c t d li ix by simp
            with Provision_install_trace [of env cfg "snd (stage_index env cfg)"] show ?thesis
              by (auto simp add: stage_index_trace stage_list_trace)
          qed
        qed
      qed
    qed
  qed
qed

text \<open>
  C5, as amended. With an empty \<open>sources\<close>, a run of \<open>Provision\<close> uploads no source
  list and issues no \<open>apt-get update\<close>. With a non-empty \<open>sources\<close>: when the cache
  upload, the key upload and the DNS wait have succeeded, the upload of the source list is the
  next call of the run, and when that upload has succeeded the \<open>apt-get update\<close> command is
  the call after it; and the install command is issued only in a run whose trace is the trace
  up to the DNS wait, then the upload, the index refresh and the install command, in that
  order.
\<close>

theorem sources_steps_conditional:
  "(Sources cfg = [] \<longrightarrow>
      \<not> list_ex is_sources_upload (snd (Provision env cfg))
      \<and> \<not> list_ex is_index_refresh (snd (Provision env cfg)))
   \<and> (Sources cfg \<noteq> [] \<and> fst (stage_cache env cfg) = Inr () \<and> fst (stage_trust env cfg) = Inr ()
        \<and> fst (stage_dns env cfg) = Inr () \<longrightarrow>
      (\<exists>rest. snd (Provision env cfg) =
           snd (stage_dns env cfg) @
             CommUpload ''/etc/apt/sources.list.d/packer.list''
               (StringReader (strings_Join (Sources cfg) [CHR 0x0A] @ [CHR 0x0A])) None # rest
           \<and> (fst (stage_list env cfg) = Inr () \<longrightarrow>
                (\<exists>rest'. rest = RunWithUi ''/usr/bin/apt-get update'' # rest'))))
   \<and> (Sources cfg \<noteq> [] \<and> RunWithUi (install_command cfg) \<in> set (snd (Provision env cfg)) \<longrightarrow>
      (\<exists>rest. snd (Provision env cfg) =
           snd (stage_dns env cfg) @
             [CommUpload ''/etc/apt/sources.list.d/packer.list''
                (StringReader (strings_Join (Sources cfg) [CHR 0x0A] @ [CHR 0x0A])) None,
              RunWithUi ''/usr/bin/apt-get update'',
              RunWithUi (install_command cfg)] @ rest)
      \<and> RunWithUi (install_command cfg) \<notin> set (snd (stage_dns env cfg)))"
  using no_sources_no_calls [of cfg env] sources_calls_follow_dns [of cfg env]
    install_after_sources_calls [of cfg env] stage_dns_quiet(3) [where env = env and cfg = cfg]
  by blast

text \<open>
  C5 as stated fails: with a non-empty \<open>sources\<close>, a run in which the DNS wait fails
  ends there, with neither the source list upload nor the index refresh.
\<close>

theorem sources_steps_counterexample:
  "Sources cfg_bullseye \<noteq> []
   \<and> \<not> list_ex is_sources_upload (snd (Provision (host_remote_fails host_ok dns_command) cfg_bullseye))
   \<and> \<not> list_ex is_index_refresh (snd (Provision (host_remote_fails host_ok dns_command) cfg_bullseye))"
  by (simp add: step_defs host_defs dns_command_def is_index_refresh_def)

theorem sources_steps_conditional_witness:
  "Sources cfg_curl = []
   \<and> \<not> list_ex is_sources_upload (snd (Provision host_not_debian cfg_curl))
   \<and> \<not> list_ex is_index_refresh (snd (Provision host_not_debian cfg_curl))
   \<and> Sources cfg_bullseye \<noteq> []
   \<and> fst (stage_cache host_ok cfg_bullseye) = Inr () \<and> fst (stage_trust host_ok cfg_bullseye) = Inr ()
   \<and> fst (stage_dns host_ok cfg_bullseye) = Inr () \<and> fst (stage_list host_ok cfg_bullseye) = Inr ()
   \<and> RunWithUi (install_command cfg_bullseye) \<in> set (snd (Provision host_ok cfg_bullseye))
   \<and> (\<exists>rest. snd (Provision host_ok cfg_bullseye) =
           snd (stage_dns host_ok cfg_bullseye) @
             [CommUpload ''/etc/apt/sources.list.d/packer.list''
                (StringReader (''deb http://deb.debian.org/debian bullseye main'' @ [CHR 0x0A])) None,
              RunWithUi ''/usr/bin/apt-get update'',
              RunWithUi ''DEBIAN_FRONTEND=noninteractive /usr/bin/apt-get install -y --no-install-recommends curl git'']
             @ rest)"
proof -
  have a: "Sources cfg_curl = []"
    by (simp add: cfg_curl_def)
  have b: "Sources cfg_bullseye \<noteq> [] \<and> fst (stage_cache host_ok cfg_bullseye) = Inr ()
      \<and> fst (stage_trust host_ok cfg_bullseye) = Inr () \<and> fst (stage_dns host_ok cfg_bullseye) = Inr ()
      \<and> fst (stage_list host_ok cfg_bullseye) = Inr ()"
    by (simp add: stage_defs step_defs host_defs)
  have c: "RunWithUi (install_command cfg_bullseye) \<in> set (snd (Provision host_ok cfg_bullseye))"
    by (simp add: step_defs host_defs)
  have d: "strings_Join (Sources cfg_bullseye) [CHR 0x0A] = ''deb http://deb.debian.org/debian bullseye main''"
    "install_command cfg_bullseye =
       ''DEBIAN_FRONTEND=noninteractive /usr/bin/apt-get install -y --no-install-recommends curl git''"
    by (simp_all add: cfg_bullseye_def install_command_def)
  show ?thesis
    using a b c
      sources_steps_conditional [of cfg_curl host_not_debian]
      sources_steps_conditional [of cfg_bullseye host_ok]
    unfolding d by blast
qed

section \<open>The final cleanup\<close>

text \<open>When every step before the cleanup succeeds and the cleanup fails, its error is returned.\<close>

lemma fails_at_clean:
  assumes "fst (stage_cache env cfg) = Inr ()" and "fst (stage_trust env cfg) = Inr ()"
    and "fst (stage_dns env cfg) = Inr ()"
    and "Sources cfg = [] \<or> fst (stage_list env cfg) = Inr () \<and> fst (stage_index env cfg) = Inr ()"
    and "fst (stage_install env cfg) = Inr ()" and "fst (stage_updateCache env cfg) = Inr ()"
    and "fst (stage_clean env cfg) = Inl e"
  shows "Provision env cfg = (Inl e, snd (stage_clean env cfg) @ [UiError ''apt-get clean failed, ignoring''])"
proof -
  have "Provision env cfg =
     Provision_install env cfg
       (if Sources cfg \<noteq> [] then snd (stage_index env cfg) else snd (stage_dns env cfg))"
    using assms(1-4) by (intro reaches_install) simp_all
  with assms(5-7) show ?thesis
    using install_fails_at_clean
      [of env cfg "if Sources cfg \<noteq> [] then snd (stage_index env cfg) else snd (stage_dns env cfg)" e]
    by (simp add: stage_install_def stage_updateCache_def stage_clean_def)
qed

text \<open>
  C1. On a host that is not Debian based, with no key and no source, every step before the
  cleanup succeeds; when \<open>apt-get clean\<close> then fails, \<open>Provision\<close> logs
  \<open>apt-get clean failed, ignoring\<close> and returns the error of the command all the same.
\<close>

theorem Provision_returns_clean_failure:
  "fst (stage_cache (host_remote_fails host_not_debian ''/usr/bin/apt-get clean'') cfg_curl) = Inr ()
   \<and> fst (stage_trust (host_remote_fails host_not_debian ''/usr/bin/apt-get clean'') cfg_curl) = Inr ()
   \<and> fst (stage_dns (host_remote_fails host_not_debian ''/usr/bin/apt-get clean'') cfg_curl) = Inr ()
   \<and> fst (stage_install (host_remote_fails host_not_debian ''/usr/bin/apt-get clean'') cfg_curl) = Inr ()
   \<and> fst (stage_updateCache (host_remote_fails host_not_debian ''/usr/bin/apt-get clean'') cfg_curl) = Inr ()
   \<and> fst (stage_clean (host_remote_fails host_not_debian ''/usr/bin/apt-get clean'') cfg_curl)
       = Inl (ErrOther ''exit status 100'')
   \<and> Provision (host_remote_fails host_not_debian ''/usr/bin/apt-get clean'') cfg_curl =
       (Inl (ErrOther ''exit status 100''),
        [UiSay ''Provisioning with APT...'',
         OsStat ''/var/cache/apt/archives'',
         UiSay ''Host APT package cache not found, likely not running on a debian based host. Proceeding regardless'',
         RunWithUi dns_command,
         RunWithUi ''DEBIAN_FRONTEND=noninteractive /usr/bin/apt-get install -y --no-install-recommends curl'',
         OsStat ''/var/cache/apt/archives'',
         UiSay ''Skipping updating package cache, likely not running on a debian based host.'',
         RunWithUi ''/usr/bin/apt-get clean'',
         UiError ''apt-get clean failed, ignoring''])"
  by (simp add: stage_defs step_defs host_defs dns_command_def)

section \<open>A cache path that is not a directory\<close>

lemma Provision_extends_trust:
  assumes "fst (stage_cache env cfg) = Inr ()"
  shows "\<exists>rest. snd (Provision env cfg) = snd (stage_trust env cfg) @ rest"
proof (cases "fst (stage_trust env cfg)")
  case (Inl e)
  from fails_at_trust [OF assms Inl] show ?thesis by simp
next
  case t: (Inr u)
  show ?thesis
  proof (cases "fst (stage_dns env cfg)")
    case (Inl e)
    from fails_at_dns [OF assms _ Inl] t show ?thesis by (simp add: stage_dns_trace)
  next
    case d: (Inr u)
    show ?thesis
    proof (cases "Sources cfg = []")
      case True
      then have "Provision env cfg = Provision_install env cfg (snd (stage_dns env cfg))"
        using reaches_install [of env cfg] assms t d by simp
      with Provision_install_extends [of env cfg "snd (stage_dns env cfg)"] show ?thesis
        by (auto simp add: stage_dns_trace)
    next
      case False
      with sources_calls_follow_dns [of cfg env] assms t d show ?thesis
        by (auto simp add: stage_dns_trace)
    qed
  qed
qed

text \<open>
  C10. When \<open>cache_dir\<close> exists and is not a directory, \<open>uploadHostPackageCache\<close>
  makes the \<open>os.Stat\<close> call only and returns no error; in a run of \<open>Provision\<close> the
  key upload follows, on the trace that holds nothing but the greeting and that call.
\<close>

theorem cache_dir_not_a_directory:
  assumes "os_Stat env l (CacheDir cfg) = Inr fi" and "\<not> IsDir fi"
  shows "uploadHostPackageCache env cfg l = (Inr (), l @ [OsStat (CacheDir cfg)])
       \<and> (l = [UiSay ''Provisioning with APT...''] \<longrightarrow>
            (\<exists>rest. snd (Provision env cfg) =
               snd (uploadHostPackageTrust env cfg
                      [UiSay ''Provisioning with APT...'', OsStat (CacheDir cfg)]) @ rest))"
proof (intro conjI impI)
  show r: "uploadHostPackageCache env cfg l = (Inr (), l @ [OsStat (CacheDir cfg)])"
    using assms by (simp add: uploadHostPackageCache_def)
  assume "l = [UiSay ''Provisioning with APT...'']"
  with r have c: "stage_cache env cfg = (Inr (), [UiSay ''Provisioning with APT...'', OsStat (CacheDir cfg)])"
    by (simp add: stage_cache_def)
  then have "fst (stage_cache env cfg) = Inr ()" by simp
  from Provision_extends_trust [OF this]
  show "\<exists>rest. snd (Provision env cfg) =
               snd (uploadHostPackageTrust env cfg
                      [UiSay ''Provisioning with APT...'', OsStat (CacheDir cfg)]) @ rest"
    by (simp add: stage_trust_def c)
qed

theorem cache_dir_not_a_directory_witness:
  "os_Stat host_cache_is_file [UiSay ''Provisioning with APT...''] (CacheDir cfg_bullseye) = Inr (FileInfo False)
   \<and> \<not> IsDir (FileInfo False)
   \<and> uploadHostPackageCache host_cache_is_file cfg_bullseye [UiSay ''Provisioning with APT...''] =
       (Inr (), [UiSay ''Provisioning with APT...'', OsStat ''/var/cache/apt/archives''])
   \<and> (\<exists>rest. snd (Provision host_cache_is_file cfg_bullseye) =
         [UiSay ''Provisioning with APT...'', OsStat ''/var/cache/apt/archives'',
          OsOpen ''/usr/share/keyrings/debian.gpg'', FileStat ''/usr/share/keyrings/debian.gpg'',
          CommUpload ''/etc/apt/trusted.gpg.d/debian.gpg'' (FileReader ''/usr/share/keyrings/debian.gpg'')
            (Some (FileInfo False)),
          FileClose ''/usr/share/keyrings/debian.gpg''] @ rest)"
proof -
  have h: "os_Stat host_cache_is_file [UiSay ''Provisioning with APT...''] (CacheDir cfg_bullseye) = Inr (FileInfo False)"
    by (simp add: host_defs)
  have c: "CacheDir cfg_bullseye = ''/var/cache/apt/archives''"
    by (simp add: cfg_bullseye_def)
  have t: "snd (uploadHostPackageTrust host_cache_is_file cfg_bullseye
                 [UiSay ''Provisioning with APT...'', OsStat ''/var/cache/apt/archives'']) =
         [UiSay ''Provisioning with APT...'', OsStat ''/var/cache/apt/archives'',
          OsOpen ''/usr/share/keyrings/debian.gpg'', FileStat ''/usr/share/keyrings/debian.gpg'',
          CommUpload ''/etc/apt/trusted.gpg.d/debian.gpg'' (FileReader ''/usr/share/keyrings/debian.gpg'')
            (Some (FileInfo False)),
          FileClose ''/usr/share/keyrings/debian.gpg'']"
    by (simp add: step_defs host_defs)
  show ?thesis
    using cache_dir_not_a_directory [OF h] h
    by (simp add: c t)
qed

section \<open>The upload of the trust keys\<close>







end
